theory Spec2Isabelle
  imports Complex_Main "HOL-Library.Word" "HOL-Library.AList" "HOL-Library.Multiset"
begin

section \<open>JavaScript values\<close>

text \<open>
  A JavaScript string is a sequence of UTF-16 code units: \<open>length\<close>, \<open>substring\<close>,
  \<open>slice\<close>, \<open>startsWith\<close> and the regular expressions of the sources (none has the
  \<open>u\<close> flag) all count code units.
\<close>

type_synonym jschar = "16 word"
type_synonym jsstring = "jschar list"

definition js :: "string \<Rightarrow> jsstring" where
  "js s = map (\<lambda>c. of_nat (of_char c)) s"

text \<open>
  The class \<open>\s\<close> of a regular expression and the characters removed by
  \<open>String.prototype.trim\<close> are the same set: WhiteSpace and LineTerminator of ECMAScript.
\<close>

definition is_space :: "jschar \<Rightarrow> bool" where
  "is_space c \<longleftrightarrow>
     c \<in> {0x09, 0x0A, 0x0B, 0x0C, 0x0D, 0x20, 0xA0, 0x1680, 0x2028, 0x2029,
          0x202F, 0x205F, 0x3000, 0xFEFF} \<or> (0x2000 \<le> c \<and> c \<le> 0x200A)"

definition trim :: "jsstring \<Rightarrow> jsstring" where
  "trim s = rev (dropWhile is_space (rev (dropWhile is_space s)))"

definition startsWith :: "jsstring \<Rightarrow> jsstring \<Rightarrow> bool" where
  "startsWith s searchString \<longleftrightarrow> take (length searchString) s = searchString"

text \<open>
  Numbers: \<open>NaN\<close>, the two infinities and the finite values (\<open>-0\<close> is identified with
  \<open>0\<close>: both are falsy and print alike). The other values are the primitives a caller
  can put into a settings object; \<open>JSUndefined\<close> is also what reading an absent property
  gives.
\<close>

datatype jsnumber = NaN | PosInfinity | NegInfinity | Finite real

datatype jsval =
    JSUndefined
  | JSNull
  | JSBoolean bool
  | JSNumber jsnumber
  | JSString jsstring

fun truthy :: "jsval \<Rightarrow> bool" where
  "truthy JSUndefined = False"
| "truthy JSNull = False"
| "truthy (JSBoolean b) = b"
| "truthy (JSNumber n) = (n \<noteq> NaN \<and> n \<noteq> Finite 0)"
| "truthy (JSString s) = (s \<noteq> [])"

text \<open>The operator \<open>a || b\<close>.\<close>

definition js_or :: "jsval \<Rightarrow> jsval \<Rightarrow> jsval" where
  "js_or a b = (if truthy a then a else b)"

datatype error =
    QuotaExceededError
  | SecurityError
  | SyntaxError
  | RangeError
  | ReferenceError
  | TypeError
  | HostError

datatype json =
    JNull
  | JBool bool
  | JNum jsnumber
  | JStr jsstring
  | JArr "json list"
  | JObj "(jsstring \<times> json) list"

section \<open>The conversation records (chatManager.js)\<close>

record message =
  msg_role :: jsstring
  msg_content :: jsstring
  msg_timestamp :: int

record settings =
  temperature :: jsval
  topK :: jsval

record chat =
  cid :: jsstring
  title :: jsstring
  timestamp :: int
  messages :: "message list"
  settings :: settings

subsection \<open>generateTitle\<close>

definition is_terminator :: "jschar \<Rightarrow> bool" where
  "is_terminator c \<longleftrightarrow> c \<in> {0x2E, 0x21, 0x3F}"

text \<open>
  \<open>title.search(/[.!?]\s/)\<close>: the index of the first \<open>.\<close>, \<open>!\<close> or \<open>?\<close> that is followed
  by a whitespace character; \<open>None\<close> stands for the result \<open>-1\<close>.
\<close>

fun search_sentence_end :: "jsstring \<Rightarrow> nat option" where
  "search_sentence_end (c # d # cs) =
     (if is_terminator c \<and> is_space d then Some 0
      else map_option Suc (search_sentence_end (d # cs)))"
| "search_sentence_end _ = None"

definition generateTitle :: "jsstring \<Rightarrow> jsstring" where
  "generateTitle content =
     (let title = trim content;
          title = (case search_sentence_end title of
                     Some sentenceEnd \<Rightarrow> take (sentenceEnd + 1) title
                   | None \<Rightarrow> title);
          title = (if length title > 50 then take 47 title @ js ''...'' else title)
      in if title = [] then js ''New Chat'' else title)"

section \<open>The durable store (storageManager.js)\<close>

text \<open>
  \<open>localStorage\<close>: the stored items in insertion order, a quota on the code units of
  all keys and values, and whether the page may touch the storage at all (the
  \<open>localStorage\<close> getter throws a SecurityError otherwise).
\<close>

record storage =
  items :: "(jsstring \<times> jsstring) list"
  capacity :: nat
  accessible :: bool

definition usage :: "(jsstring \<times> jsstring) list \<Rightarrow> nat" where
  "usage its = sum_list (map (\<lambda>(k, v). length k + length v) its)"

definition getItem :: "storage \<Rightarrow> jsstring \<Rightarrow> error + jsstring option" where
  "getItem st k = (if accessible st then Inr (map_of (items st) k) else Inl SecurityError)"

definition setItem :: "storage \<Rightarrow> jsstring \<Rightarrow> jsstring \<Rightarrow> error + storage" where
  "setItem st k v =
     (if \<not> accessible st then Inl SecurityError
      else let its = AList.update k v (items st)
           in if usage its > capacity st then Inl QuotaExceededError
              else Inr (st\<lparr>items := its\<rparr>))"

definition CHAT_HISTORY :: jsstring where
  "CHAT_HISTORY = js ''prompt-api-chat-history''"

definition UI_STATE :: jsstring where
  "UI_STATE = js ''prompt-api-ui-state''"

definition ACTIVE_CHAT :: jsstring where
  "ACTIVE_CHAT = js ''prompt-api-active-chat''"

definition MAX_CHATS :: nat where
  "MAX_CHATS = 50"

text \<open>
  \<open>chats.sort((a, b) => b.timestamp - a.timestamp)\<close>: \<open>Array.prototype.sort\<close> is stable,
  so the chats come out by descending timestamp, equal timestamps in their former order.
\<close>

definition sort_desc :: "chat list \<Rightarrow> chat list" where
  "sort_desc cs = sort_key (\<lambda>c. - timestamp c) cs"

text \<open>
  \<open>saveChatHistory\<close> calls itself from its \<open>catch\<close> block, with no bound on the depth.
  The first argument is the number of further frames the call stack has room for: a call
  made with none left throws a RangeError, which leaves the \<open>catch\<close> blocks of all the
  frames below it. \<open>JSON.stringify\<close> is a parameter. The result is the caller's array
  after the call (\<open>sort\<close> works in place), the storage, and the value returned or the
  error thrown.
\<close>

fun saveChatHistory ::
  "nat \<Rightarrow> (chat list \<Rightarrow> jsstring) \<Rightarrow> storage \<Rightarrow> chat list \<Rightarrow>
     chat list \<times> storage \<times> (error + bool)" where
  "saveChatHistory stack stringify st cs =
     (let sorted = sort_desc cs;
          limitedChats = take MAX_CHATS sorted
      in case setItem st CHAT_HISTORY (stringify limitedChats) of
           Inr st' \<Rightarrow> (sorted, st', Inr True)
         | Inl e \<Rightarrow>
             if e = QuotaExceededError then
               (case stack of
                  0 \<Rightarrow> (sorted, st, Inl RangeError)
                | Suc frames \<Rightarrow>
                    (case saveChatHistory frames stringify st (take (MAX_CHATS div 2) sorted) of
                       (_, st', Inl err) \<Rightarrow> (sorted, st', Inl err)
                     | (_, st', Inr _) \<Rightarrow> (sorted, st', Inr False)))
             else (sorted, st, Inr False))"

text \<open>
  \<open>loadChatHistory\<close> and \<open>loadUIState\<close>: the body of the \<open>try\<close> first, then the function
  with its \<open>catch\<close>. \<open>JSON.parse\<close> is a parameter; \<open>Inl\<close> is a thrown error.
\<close>

definition truthy_item :: "jsstring option \<Rightarrow> bool" where
  "truthy_item data = (case data of None \<Rightarrow> False | Some s \<Rightarrow> s \<noteq> [])"

definition loadChatHistory_try :: "(jsstring \<Rightarrow> error + json) \<Rightarrow> storage \<Rightarrow> error + json" where
  "loadChatHistory_try parse st =
     (case getItem st CHAT_HISTORY of
        Inl e \<Rightarrow> Inl e
      | Inr data \<Rightarrow> if truthy_item data then parse (the data) else Inr (JArr []))"

definition loadChatHistory :: "(jsstring \<Rightarrow> error + json) \<Rightarrow> storage \<Rightarrow> error + json" where
  "loadChatHistory parse st =
     (case loadChatHistory_try parse st of
        Inl e \<Rightarrow> Inr (JArr [])
      | Inr v \<Rightarrow> Inr v)"

definition default_ui_state :: json where
  "default_ui_state =
     JObj [(js ''leftSidebarCollapsed'', JBool False), (js ''rightSidebarCollapsed'', JBool True)]"

definition loadUIState_try :: "(jsstring \<Rightarrow> error + json) \<Rightarrow> storage \<Rightarrow> error + json" where
  "loadUIState_try parse st =
     (case getItem st UI_STATE of
        Inl e \<Rightarrow> Inl e
      | Inr data \<Rightarrow> if truthy_item data then parse (the data) else Inr default_ui_state)"

definition loadUIState :: "(jsstring \<Rightarrow> error + json) \<Rightarrow> storage \<Rightarrow> error + json" where
  "loadUIState parse st =
     (case loadUIState_try parse st of
        Inl e \<Rightarrow> Inr default_ui_state
      | Inr v \<Rightarrow> Inr v)"

definition saveActiveChat :: "storage \<Rightarrow> jsstring \<Rightarrow> storage" where
  "saveActiveChat st chatId =
     (case setItem st ACTIVE_CHAT chatId of Inr st' \<Rightarrow> st' | Inl e \<Rightarrow> st)"

declare saveChatHistory.simps [simp del]

section \<open>The conversation repository (chatManager.js)\<close>

text \<open>
  The fields of a \<open>ChatManager\<close>; \<open>activeChat\<close> is \<open>null\<close> or an id. A method takes the
  manager and the storage and returns both with its result. \<open>Date.now()\<close> and the id built
  from the clock and \<open>Math.random()\<close> are arguments.
\<close>

record chat_manager =
  chats :: "chat list"
  activeChat :: "jsstring option"

fun findIndex :: "('a \<Rightarrow> bool) \<Rightarrow> 'a list \<Rightarrow> nat option" where
  "findIndex P [] = None"
| "findIndex P (x # xs) = (if P x then Some 0 else map_option Suc (findIndex P xs))"

definition getChat :: "chat_manager \<Rightarrow> jsstring \<Rightarrow> chat option" where
  "getChat m chatId = find (\<lambda>c. cid c = chatId) (chats m)"

text \<open>
  \<open>save\<close>: \<open>saveChatHistory\<close> sorts \<open>this.chats\<close> itself, not a copy; the active id is
  written when it is truthy and \<open>saveChatHistory\<close> has not thrown.
\<close>

definition save ::
  "nat \<Rightarrow> (chat list \<Rightarrow> jsstring) \<Rightarrow> chat_manager \<Rightarrow> storage \<Rightarrow>
     (error + unit) \<times> chat_manager \<times> storage" where
  "save stack stringify m st =
     (case saveChatHistory stack stringify st (chats m) of
        (cs, st', Inl e) \<Rightarrow> (Inl e, m\<lparr>chats := cs\<rparr>, st')
      | (cs, st', Inr _) \<Rightarrow>
          (Inr (), m\<lparr>chats := cs\<rparr>,
           if truthy_item (activeChat m) then saveActiveChat st' (the (activeChat m)) else st'))"

definition createNewChat ::
  "nat \<Rightarrow> (chat list \<Rightarrow> jsstring) \<Rightarrow> jsstring \<Rightarrow> int \<Rightarrow> settings \<Rightarrow> chat_manager \<Rightarrow> storage \<Rightarrow>
     (error + chat) \<times> chat_manager \<times> storage" where
  "createNewChat stack stringify new_id now settings_arg m st =
     (let chat = \<lparr>cid = new_id, title = js ''New Chat'', timestamp = now, messages = [],
                  settings = \<lparr>temperature = js_or (temperature settings_arg) (JSNumber (Finite 1)),
                              topK = js_or (topK settings_arg) (JSNumber (Finite 3))\<rparr>\<rparr>;
          m1 = m\<lparr>chats := chat # chats m, activeChat := Some (cid chat)\<rparr>
      in case save stack stringify m1 st of
           (Inl e, m2, st2) \<Rightarrow> (Inl e, m2, st2)
         | (Inr _, m2, st2) \<Rightarrow> (Inr chat, m2, st2))"

text \<open>
  \<open>getChat\<close> hands out the object in the array, so what \<open>updateChat\<close> and \<open>addMessage\<close>
  assign to it is written at the index of the first chat with that id. \<open>updateChat\<close> is
  modelled for the update \<open>{ title }\<close> of \<open>updateChatTitle\<close>, its only caller.
\<close>

definition updateChatTitle ::
  "nat \<Rightarrow> (chat list \<Rightarrow> jsstring) \<Rightarrow> int \<Rightarrow> jsstring \<Rightarrow> jsstring \<Rightarrow> chat_manager \<Rightarrow> storage \<Rightarrow>
     (error + chat option) \<times> chat_manager \<times> storage" where
  "updateChatTitle stack stringify now chatId new_title m st =
     (case findIndex (\<lambda>c. cid c = chatId) (chats m) of
        None \<Rightarrow> (Inr None, m, st)
      | Some i \<Rightarrow>
          (let chat = (chats m ! i)\<lparr>title := new_title, timestamp := now\<rparr>;
               m1 = m\<lparr>chats := (chats m)[i := chat]\<rparr>
           in case save stack stringify m1 st of
                (Inl e, m2, st2) \<Rightarrow> (Inl e, m2, st2)
              | (Inr _, m2, st2) \<Rightarrow> (Inr (Some chat), m2, st2)))"

text \<open>\<open>sent\<close> and \<open>now\<close> are the two readings of the clock, for the message and the chat.\<close>

definition addMessage ::
  "nat \<Rightarrow> (chat list \<Rightarrow> jsstring) \<Rightarrow> int \<Rightarrow> int \<Rightarrow> jsstring \<Rightarrow> jsstring \<Rightarrow> jsstring \<Rightarrow>
     chat_manager \<Rightarrow> storage \<Rightarrow> (error + chat option) \<times> chat_manager \<times> storage" where
  "addMessage stack stringify sent now chatId role content m st =
     (case findIndex (\<lambda>c. cid c = chatId) (chats m) of
        None \<Rightarrow> (Inr None, m, st)
      | Some i \<Rightarrow>
          (let chat0 = chats m ! i;
               chat1 = chat0\<lparr>messages := messages chat0 @
                          [\<lparr>msg_role = role, msg_content = content, msg_timestamp = sent\<rparr>]\<rparr>;
               chat2 = (if title chat1 = js ''New Chat'' \<and> role = js ''user'' \<and>
                           length (messages chat1) = 1
                        then chat1\<lparr>title := generateTitle content\<rparr> else chat1);
               chat3 = chat2\<lparr>timestamp := now\<rparr>;
               m1 = m\<lparr>chats := (chats m)[i := chat3]\<rparr>
           in case save stack stringify m1 st of
                (Inl e, m2, st2) \<Rightarrow> (Inl e, m2, st2)
              | (Inr _, m2, st2) \<Rightarrow> (Inr (Some chat3), m2, st2)))"

text \<open>\<open>this.chats.splice(index, 1)\<close>.\<close>

definition splice1 :: "nat \<Rightarrow> 'a list \<Rightarrow> 'a list" where
  "splice1 index xs = take index xs @ drop (Suc index) xs"

definition deleteChat ::
  "nat \<Rightarrow> (chat list \<Rightarrow> jsstring) \<Rightarrow> jsstring \<Rightarrow> chat_manager \<Rightarrow> storage \<Rightarrow>
     (error + bool) \<times> chat_manager \<times> storage" where
  "deleteChat stack stringify chatId m st =
     (case findIndex (\<lambda>c. cid c = chatId) (chats m) of
        None \<Rightarrow> (Inr False, m, st)
      | Some index \<Rightarrow>
          (let cs = splice1 index (chats m);
               active = (if activeChat m = Some chatId
                         then (case cs of [] \<Rightarrow> None | c # _ \<Rightarrow> Some (cid c))
                         else activeChat m);
               m1 = m\<lparr>chats := cs, activeChat := active\<rparr>
           in case save stack stringify m1 st of
                (Inl e, m2, st2) \<Rightarrow> (Inl e, m2, st2)
              | (Inr _, m2, st2) \<Rightarrow> (Inr True, m2, st2)))"

text \<open>
  \<open>getActiveChat\<close> sets \<open>activeChat\<close> to the first chat when it is falsy and there is a
  chat, and does not save.
\<close>

definition getActiveChat :: "chat_manager \<Rightarrow> chat option \<times> chat_manager" where
  "getActiveChat m =
     (let m1 = (if \<not> truthy_item (activeChat m) \<and> length (chats m) > 0
                then m\<lparr>activeChat := Some (cid (hd (chats m)))\<rparr> else m)
      in (if truthy_item (activeChat m1) then getChat m1 (the (activeChat m1)) else None, m1))"

section \<open>The session and the streamed answer (script.js)\<close>

text \<open>
  What the host has been asked to do, in order: a session created with its parameters, or
  a session destroyed. A handle is the position of its creation in this list, so two
  sessions never share one; a handle is live when it has been created and not destroyed
  since.
\<close>

datatype host_event = Create settings | Destroy nat

fun is_Create :: "host_event \<Rightarrow> bool" where
  "is_Create (Create _) = True"
| "is_Create (Destroy _) = False"

definition live_handles :: "host_event list \<Rightarrow> nat list" where
  "live_handles evs =
     filter (\<lambda>h. is_Create (evs ! h) \<and> Destroy h \<notin> set (drop (Suc h) evs))
       [0..<length evs]"

text \<open>
  What \<open>promptStreaming\<close> gives: the snapshots the iterator yields, and the error it
  throws after them, if it does not end normally. A call of \<open>promptStreaming\<close> that is
  itself rejected is a stream with no snapshot and an error.
\<close>

record stream =
  chunks :: "jsstring list"
  failure :: "error option"

text \<open>
  The surroundings of the script, fixed for a run: the room on the call stack,
  \<open>JSON.stringify\<close>, whether \<open>self.LanguageModel\<close> is there, whether
  \<open>LanguageModel.create\<close> fulfils its promise, the stream a session answers a prompt
  with, and one fact about the page, which is not among the sources. The script never
  declares the identifier \<open>p\<close> that \<open>promptModel\<close> reads, so reading it throws a
  ReferenceError unless the global object of the page has a property of that name
  (\<open>p_in_scope\<close>).
\<close>

record env =
  stack_frames :: nat
  JSON_stringify :: "chat list \<Rightarrow> jsstring"
  languageModel :: bool
  create_succeeds :: bool
  promptStreaming :: "nat \<Rightarrow> jsstring \<Rightarrow> stream"
  p_in_scope :: bool

text \<open>
  The state of the script: the manager, the storage, the variable \<open>session\<close>, the list
  of what the host was asked, and what \<open>Number(sessionTemperature.value)\<close> and
  \<open>Number(sessionTopK.value)\<close> read. Each function below is one flow of control, run
  from its call to the end of its last continuation: \<open>updateSession\<close> as the
  listeners of the sliders and \<open>promptModel\<close> await it, and these listeners and
  \<open>promptModel\<close> themselves. Rendering and \<open>updateStats\<close> only write to the page
  and are left out, but for the reads of \<open>p\<close>.
\<close>

record app =
  manager :: chat_manager
  store :: storage
  session :: "nat option"
  host_log :: "host_event list"
  sessionTemperature :: jsnumber
  sessionTopK :: jsnumber

text \<open>
  \<open>updateSession\<close>. \<open>activeChat?.settings || {}\<close> reads as undefined fields when there
  is no active chat. When \<open>create\<close> is rejected the assignment to \<open>session\<close> does not
  happen and the error leaves \<open>updateSession\<close>.
\<close>

definition updateSession :: "env \<Rightarrow> app \<Rightarrow> (error + unit) \<times> app" where
  "updateSession e a =
     (if languageModel e then
        (case getActiveChat (manager a) of
           (active, m1) \<Rightarrow>
             (let chat_settings = (case active of
                                     Some c \<Rightarrow> settings c
                                   | None \<Rightarrow> \<lparr>temperature = JSUndefined, topK = JSUndefined\<rparr>);
                  options = \<lparr>temperature = js_or (js_or (JSNumber (sessionTemperature a))
                                                        (temperature chat_settings))
                                                 (JSNumber (Finite 1)),
                             topK = js_or (js_or (JSNumber (sessionTopK a)) (topK chat_settings))
                                          (JSNumber (Finite 3))\<rparr>
              in if create_succeeds e
                 then (Inr (), a\<lparr>manager := m1, session := Some (length (host_log a)),
                                host_log := host_log a @ [Create options]\<rparr>)
                 else (Inl HostError, a\<lparr>manager := m1\<rparr>)))
      else (Inr (), a))"

text \<open>
  The \<open>input\<close> listeners of the two sliders; \<open>v\<close> is what the slider reads when the
  event arrives. The settings are written into the active chat, the object that
  \<open>getChat\<close> finds, and saved; then \<open>updateSession\<close> is awaited. Neither listener
  calls \<open>destroy\<close> on the session it replaces.
\<close>

definition sessionTemperature_input :: "env \<Rightarrow> jsnumber \<Rightarrow> app \<Rightarrow> (error + unit) \<times> app" where
  "sessionTemperature_input e v a =
     (let a0 = a\<lparr>sessionTemperature := v\<rparr> in
      case getActiveChat (manager a0) of
        (None, m1) \<Rightarrow> updateSession e (a0\<lparr>manager := m1\<rparr>)
      | (Some active, m1) \<Rightarrow>
          (let m2 = (case findIndex (\<lambda>c. cid c = cid active) (chats m1) of
                       None \<Rightarrow> m1
                     | Some i \<Rightarrow> m1\<lparr>chats := (chats m1)[i := (chats m1 ! i)
                           \<lparr>settings := (settings (chats m1 ! i))\<lparr>temperature := JSNumber v\<rparr>\<rparr>]\<rparr>)
           in case save (stack_frames e) (JSON_stringify e) m2 (store a0) of
                (Inl err, m3, st3) \<Rightarrow> (Inl err, a0\<lparr>manager := m3, store := st3\<rparr>)
              | (Inr _, m3, st3) \<Rightarrow> updateSession e (a0\<lparr>manager := m3, store := st3\<rparr>)))"

definition sessionTopK_input :: "env \<Rightarrow> jsnumber \<Rightarrow> app \<Rightarrow> (error + unit) \<times> app" where
  "sessionTopK_input e v a =
     (let a0 = a\<lparr>sessionTopK := v\<rparr> in
      case getActiveChat (manager a0) of
        (None, m1) \<Rightarrow> updateSession e (a0\<lparr>manager := m1\<rparr>)
      | (Some active, m1) \<Rightarrow>
          (let m2 = (case findIndex (\<lambda>c. cid c = cid active) (chats m1) of
                       None \<Rightarrow> m1
                     | Some i \<Rightarrow> m1\<lparr>chats := (chats m1)[i := (chats m1 ! i)
                           \<lparr>settings := (settings (chats m1 ! i))\<lparr>topK := JSNumber v\<rparr>\<rparr>]\<rparr>)
           in case save (stack_frames e) (JSON_stringify e) m2 (store a0) of
                (Inl err, m3, st3) \<Rightarrow> (Inl err, a0\<lparr>manager := m3, store := st3\<rparr>)
              | (Inr _, m3, st3) \<Rightarrow> updateSession e (a0\<lparr>manager := m3, store := st3\<rparr>)))"

subsection \<open>promptModel\<close>

text \<open>The delta of a snapshot, given the snapshot before it.\<close>

definition newChunk :: "jsstring \<Rightarrow> jsstring \<Rightarrow> jsstring" where
  "newChunk previousChunk chunk =
     (if startsWith chunk previousChunk then drop (length previousChunk) chunk else chunk)"

text \<open>
  The loop \<open>for await (const chunk of stream)\<close> over the snapshots still to come, with
  the variables \<open>result\<close> and \<open>previousChunk\<close>. After the delta is appended the loop
  assigns to \<open>p.innerHTML\<close>, which throws when \<open>p\<close> is not in scope. \<open>read_stream\<close> is
  the loop from its start, and the end of the iterator after the last snapshot.
\<close>

fun for_await :: "bool \<Rightarrow> jsstring list \<Rightarrow> jsstring \<Rightarrow> jsstring \<Rightarrow> error + jsstring" where
  "for_await p [] result previousChunk = Inr result"
| "for_await p (chunk # rest) result previousChunk =
     (let result' = result @ newChunk previousChunk chunk
      in if p then for_await p rest result' chunk else Inl ReferenceError)"

definition read_stream :: "bool \<Rightarrow> stream \<Rightarrow> error + jsstring" where
  "read_stream p s =
     (case for_await p (chunks s) [] [] of
        Inl err \<Rightarrow> Inl err
      | Inr result \<Rightarrow> (case failure s of Some err \<Rightarrow> Inl err | None \<Rightarrow> Inr result))"

text \<open>
  The readings of the clock and the id that one run of \<open>promptModel\<close> may use: for a chat
  it has to create, for the message of the user and for the answer.
\<close>

record readings =
  fresh_id :: jsstring
  t_created :: int
  t_user_sent :: int
  t_user :: int
  t_reply_sent :: int
  t_reply :: int

text \<open>
  \<open>promptModel\<close> up to the \<open>try\<close>: an active chat is found or created and the prompt is
  appended to it as the message of the user. The result is the id of that chat.
\<close>

definition submit_prompt :: "env \<Rightarrow> readings \<Rightarrow> jsstring \<Rightarrow> app \<Rightarrow> (error + jsstring) \<times> app" where
  "submit_prompt e rd prompt a =
     (case (case getActiveChat (manager a) of
              (Some active, m1) \<Rightarrow> (Inr active, a\<lparr>manager := m1\<rparr>)
            | (None, m1) \<Rightarrow>
                (case createNewChat (stack_frames e) (JSON_stringify e) (fresh_id rd) (t_created rd)
                        \<lparr>temperature = JSNumber (sessionTemperature a),
                         topK = JSNumber (sessionTopK a)\<rparr> m1 (store a) of
                   (r, m2, st2) \<Rightarrow> (r, a\<lparr>manager := m2, store := st2\<rparr>))) of
        (Inl err, a1) \<Rightarrow> (Inl err, a1)
      | (Inr active, a1) \<Rightarrow>
          (case addMessage (stack_frames e) (JSON_stringify e) (t_user_sent rd) (t_user rd)
                  (cid active) (js ''user'') prompt (manager a1) (store a1) of
             (Inl err, m3, st3) \<Rightarrow> (Inl err, a1\<lparr>manager := m3, store := st3\<rparr>)
           | (Inr _, m3, st3) \<Rightarrow> (Inr (cid active), a1\<lparr>manager := m3, store := st3\<rparr>)))"

text \<open>\<open>if (!session) { await updateSession(); updateStats(); }\<close>\<close>

definition acquire_session :: "env \<Rightarrow> app \<Rightarrow> (error + unit) \<times> app" where
  "acquire_session e a = (if session a = None then updateSession e a else (Inr (), a))"

text \<open>
  The \<open>try\<close> statement of \<open>promptModel\<close>. With no session, \<open>session.promptStreaming\<close> is a
  TypeError. The answer is appended after the loop, inside the \<open>try\<close>. The \<open>catch\<close> block
  reads \<open>p\<close> too, so without \<open>p\<close> it throws in its turn; the \<open>finally\<close> block only
  writes to the page.
\<close>

definition respond :: "env \<Rightarrow> readings \<Rightarrow> jsstring \<Rightarrow> jsstring \<Rightarrow> app \<Rightarrow> (error + unit) \<times> app" where
  "respond e rd prompt chatId a =
     (case (case acquire_session e a of
              (Inl err, a1) \<Rightarrow> (Inl err, a1)
            | (Inr _, a1) \<Rightarrow>
                (case session a1 of
                   None \<Rightarrow> (Inl TypeError, a1)
                 | Some h \<Rightarrow>
                     (case read_stream (p_in_scope e) (promptStreaming e h prompt) of
                        Inl err \<Rightarrow> (Inl err, a1)
                      | Inr result \<Rightarrow>
                          (case addMessage (stack_frames e) (JSON_stringify e) (t_reply_sent rd)
                                  (t_reply rd) chatId (js ''assistant'') result
                                  (manager a1) (store a1) of
                             (Inl err, m2, st2) \<Rightarrow> (Inl err, a1\<lparr>manager := m2, store := st2\<rparr>)
                           | (Inr _, m2, st2) \<Rightarrow> (Inr (), a1\<lparr>manager := m2, store := st2\<rparr>))))) of
        (Inr _, a2) \<Rightarrow> (Inr (), a2)
      | (Inl err, a2) \<Rightarrow> (if p_in_scope e then (Inr (), a2) else (Inl ReferenceError, a2)))"

definition promptModel :: "env \<Rightarrow> readings \<Rightarrow> jsstring \<Rightarrow> app \<Rightarrow> (error + unit) \<times> app" where
  "promptModel e rd input a =
     (let prompt = trim input in
      if prompt = [] then (Inr (), a)
      else case submit_prompt e rd prompt a of
             (Inl err, a1) \<Rightarrow> (Inl err, a1)
           | (Inr chatId, a1) \<Rightarrow> respond e rd prompt chatId a1)"

section \<open>Notions of the specification\<close>


text \<open>Most recent first.\<close>

definition recency_ordered :: "chat list \<Rightarrow> bool" where
  "recency_ordered cs = sorted_wrt (\<lambda>a b. timestamp b \<le> timestamp a) cs"


text \<open>
  The title derivation in the words of the specification, for a text \<open>t\<close>: cut after the
  first sentence terminator that a whitespace character follows, if there is one; then
  shorten to 47 characters and the ellipsis if longer than 50; and keep the sentinel when
  nothing is left.
\<close>

definition terminated_at :: "jsstring \<Rightarrow> nat \<Rightarrow> bool" where
  "terminated_at t i \<longleftrightarrow> Suc i < length t \<and> is_terminator (t ! i) \<and> is_space (t ! Suc i)"

definition derive_title_spec :: "jsstring \<Rightarrow> jsstring" where
  "derive_title_spec t =
     (let cut = (case filter (terminated_at t) [0..<length t] of
                   [] \<Rightarrow> t
                 | i # _ \<Rightarrow> take (Suc i) t);
          short = (if length cut > 50 then take 47 cut @ js ''...'' else cut)
      in if short = [] then js ''New Chat'' else short)"

text \<open>The snapshots' deltas, one after the other, from the snapshot \<open>previousChunk\<close> on.\<close>

fun deltas :: "jsstring \<Rightarrow> jsstring list \<Rightarrow> jsstring list" where
  "deltas previousChunk [] = []"
| "deltas previousChunk (chunk # rest) = newChunk previousChunk chunk # deltas chunk rest"

text \<open>The messages of the assistant in a collection, counted.\<close>

definition assistant_count :: "chat list \<Rightarrow> nat" where
  "assistant_count cs =
     sum_list (map (\<lambda>c. length (filter (\<lambda>x. msg_role x = js ''assistant'') (messages c))) cs)"

section \<open>Concrete inputs\<close>

text \<open>Small conversations, a serialiser and an empty storage with a given quota.\<close>

definition demo_chat :: "string \<Rightarrow> int \<Rightarrow> chat" where
  "demo_chat name t =
     \<lparr>cid = js name, title = js ''New Chat'', timestamp = t, messages = [],
      settings = \<lparr>temperature = JSNumber (Finite 1), topK = JSNumber (Finite 3)\<rparr>\<rparr>"

definition demo_stringify :: "chat list \<Rightarrow> jsstring" where
  "demo_stringify cs = concat (map (\<lambda>c. cid c @ js '';'') cs)"

definition demo_storage :: "nat \<Rightarrow> storage" where
  "demo_storage cap = \<lparr>items = [], capacity = cap, accessible = True\<rparr>"


text \<open>A parser that reads two texts and rejects every other one.\<close>

definition demo_parse :: "jsstring \<Rightarrow> error + json" where
  "demo_parse s =
     (if s = js ''[]'' then Inr (JArr [])
      else if s = js ''[1]'' then Inr (JArr [JNum (Finite 1)])
      else Inl SyntaxError)"

text \<open>
  Surroundings in which the model is there and creates sessions, every prompt is answered
  with the stream \<open>s\<close>, and \<open>p\<close> is in scope or not; and a state with one chat, no
  session yet and the sliders at \<open>1\<close> and \<open>3\<close>.
\<close>

definition demo_env :: "bool \<Rightarrow> stream \<Rightarrow> env" where
  "demo_env p s =
     \<lparr>stack_frames = 0, JSON_stringify = demo_stringify, languageModel = True,
      create_succeeds = True, promptStreaming = (\<lambda>h prompt. s), p_in_scope = p\<rparr>"

definition demo_app :: app where
  "demo_app =
     \<lparr>manager = \<lparr>chats = [demo_chat ''a'' 2], activeChat = Some (js ''a'')\<rparr>,
      store = demo_storage 1000, session = None, host_log = [],
      sessionTemperature = Finite 1, sessionTopK = Finite 3\<rparr>"

definition demo_readings :: readings where
  "demo_readings =
     \<lparr>fresh_id = js ''n'', t_created = 5, t_user_sent = 6, t_user = 6,
      t_reply_sent = 7, t_reply = 7\<rparr>"

definition hi_stream :: stream where
  "hi_stream = \<lparr>chunks = [js ''Hi'', js ''Hi there'', js ''Hi there!''], failure = None\<rparr>"

section \<open>Facts about the list primitives\<close>

lemma findIndex_None_iff: "findIndex P xs = None \<longleftrightarrow> (\<forall>x \<in> set xs. \<not> P x)"
  by (induction xs) auto

lemma findIndex_Some:
  "findIndex P xs = Some i \<Longrightarrow> i < length xs \<and> P (xs ! i) \<and> (\<forall>j < i. \<not> P (xs ! j))"
proof (induction xs arbitrary: i)
  case Nil
  then show ?case by simp
next
  case (Cons x xs)
  show ?case
  proof (cases "P x")
    case True
    with Cons.prems show ?thesis by simp
  next
    case False
    with Cons.prems obtain k where k: "findIndex P xs = Some k" "i = Suc k"
      by auto
    from Cons.IH [OF k(1)] False k(2) show ?thesis
      by (auto simp: nth_Cons less_Suc_eq_0_disj split: nat.splits)
  qed
qed

section \<open>Facts about sorting and saving\<close>

lemma recency_ordered_iff: "recency_ordered cs \<longleftrightarrow> sorted (map (\<lambda>c. - timestamp c) cs)"
  by (induction cs) (auto simp: recency_ordered_def)

lemma sort_desc_ordered: "recency_ordered (sort_desc cs)"
  by (simp add: recency_ordered_iff sort_desc_def)

lemma sort_desc_mset: "mset (sort_desc cs) = mset cs"
  by (simp add: sort_desc_def)

lemma sort_desc_set: "set (sort_desc cs) = set cs"
  by (simp add: sort_desc_def)

lemma sort_desc_length: "length (sort_desc cs) = length cs"
  by (simp add: sort_desc_def)

lemma sort_desc_id: "recency_ordered cs \<Longrightarrow> sort_desc cs = cs"
  by (simp add: recency_ordered_iff sort_desc_def sort_key_id_if_sorted)

lemma recency_ordered_take: "recency_ordered cs \<Longrightarrow> recency_ordered (take n cs)"
  by (simp add: recency_ordered_def sorted_wrt_take)



lemma setItem_error:
  "setItem st k v = Inl e \<Longrightarrow> e = QuotaExceededError \<or> e = SecurityError"
  by (auto simp: setItem_def Let_def split: if_splits)

text \<open>A retry with an ordered payload of at most 25 chats: it writes, or it repeats itself.\<close>

lemma saveChatHistory_retry:
  assumes "recency_ordered cs" "length cs \<le> MAX_CHATS div 2"
  shows "saveChatHistory stack stringify st cs =
           (case setItem st CHAT_HISTORY (stringify cs) of
              Inr st' \<Rightarrow> (cs, st', Inr True)
            | Inl e \<Rightarrow> if e = QuotaExceededError then (cs, st, Inl RangeError)
                       else (cs, st, Inr False))"
proof (induction stack)
  case 0
  from assms show ?case
    by (subst saveChatHistory.simps) (simp add: sort_desc_id MAX_CHATS_def split: sum.splits)
next
  case (Suc n)
  from assms have t: "take (MAX_CHATS div 2) cs = cs" "take MAX_CHATS cs = cs"
    by (simp_all add: MAX_CHATS_def)
  show ?case
    by (subst saveChatHistory.simps) (simp add: sort_desc_id assms t Suc.IH split: sum.splits)
qed

lemma saveChatHistory_outcome:
  assumes "saveChatHistory stack stringify st cs = (cs', st', r)"
  shows "cs' = sort_desc cs \<and>
         (r = Inr True \<and> setItem st CHAT_HISTORY (stringify (take MAX_CHATS (sort_desc cs))) = Inr st'
          \<or> r = Inr False \<and>
              setItem st CHAT_HISTORY (stringify (take MAX_CHATS (sort_desc cs))) = Inl QuotaExceededError \<and>
              setItem st CHAT_HISTORY (stringify (take (MAX_CHATS div 2) (sort_desc cs))) = Inr st'
          \<or> (r = Inr False \<or> r = Inl RangeError) \<and> st' = st)"
proof -
  let ?half = "take (MAX_CHATS div 2) (sort_desc cs)"
  have h: "recency_ordered ?half" "length ?half \<le> MAX_CHATS div 2"
    by (simp_all add: recency_ordered_take sort_desc_ordered)
  show ?thesis
  proof (cases stack)
    case 0
    with assms show ?thesis
      by (subst (asm) saveChatHistory.simps) (auto simp: Let_def split: sum.splits if_splits)
  next
    case (Suc n)
    with assms show ?thesis
      by (subst (asm) saveChatHistory.simps)
         (auto simp: Let_def saveChatHistory_retry [OF h] split: sum.splits if_splits)
  qed
qed

section \<open>Facts about the repository operations\<close>

lemma save_outcome:
  assumes "save stack stringify m st = (r, m', st')"
  shows "chats m' = sort_desc (chats m) \<and> activeChat m' = activeChat m \<and>
         (r = Inr () \<or> r = Inl RangeError)"
proof -
  obtain cs st1 r1 where h: "saveChatHistory stack stringify st (chats m) = (cs, st1, r1)"
    by (metis prod_cases3)
  from saveChatHistory_outcome [OF h]
  have "cs = sort_desc (chats m)" "r1 = Inr True \<or> r1 = Inr False \<or> r1 = Inl RangeError"
    by auto
  with assms h show ?thesis
    by (auto simp: save_def)
qed

lemma splice1_mset: "i < length xs \<Longrightarrow> mset (splice1 i xs) = mset xs - {#xs ! i#}"
proof -
  assume "i < length xs"
  then have "xs = take i xs @ xs ! i # drop (Suc i) xs"
    by (rule id_take_nth_drop)
  then have "mset xs = mset (splice1 i xs) + {#xs ! i#}"
    by (metis splice1_def mset.simps(2) mset_append union_mset_add_mset_right add_mset_add_single)
  then show ?thesis by simp
qed

lemma splice1_ordered: "recency_ordered cs \<Longrightarrow> recency_ordered (splice1 i cs)"
proof -
  let ?P = "\<lambda>a b. timestamp b \<le> timestamp a"
  assume "recency_ordered cs"
  then have "sorted_wrt ?P (take i cs @ drop i cs)"
    by (simp add: recency_ordered_def)
  then have a: "sorted_wrt ?P (take i cs)" "sorted_wrt ?P (drop i cs)"
    "\<forall>x \<in> set (take i cs). \<forall>y \<in> set (drop i cs). ?P x y"
    unfolding sorted_wrt_append by auto
  have "sorted_wrt ?P (drop 1 (drop i cs))"
    using a(2) by (rule sorted_wrt_drop)
  then have b: "sorted_wrt ?P (drop (Suc i) cs)" by simp
  have "set (drop (Suc i) cs) \<subseteq> set (drop i cs)"
    by (rule set_drop_subset_set_drop) simp
  with a b show ?thesis
    unfolding recency_ordered_def splice1_def sorted_wrt_append by blast
qed

lemma createNewChat_outcome:
  assumes "createNewChat stack stringify new_id now s m st = (r, m', st')"
  shows "\<exists>c. chats m' = sort_desc (c # chats m) \<and> activeChat m' = Some new_id \<and>
             (r = Inr c \<or> r = Inl RangeError) \<and>
             c = \<lparr>cid = new_id, title = js ''New Chat'', timestamp = now, messages = [],
                  settings = \<lparr>temperature = js_or (temperature s) (JSNumber (Finite 1)),
                              topK = js_or (topK s) (JSNumber (Finite 3))\<rparr>\<rparr>"
proof -
  let ?c = "\<lparr>cid = new_id, title = js ''New Chat'', timestamp = now, messages = [],
                  settings = \<lparr>temperature = js_or (temperature s) (JSNumber (Finite 1)),
                              topK = js_or (topK s) (JSNumber (Finite 3))\<rparr>\<rparr>"
  let ?m1 = "m\<lparr>chats := ?c # chats m, activeChat := Some new_id\<rparr>"
  obtain r1 m2 st2 where sv: "save stack stringify ?m1 st = (r1, m2, st2)"
    by (metis prod_cases3)
  note so = save_outcome [OF sv]
  from assms sv have "m' = m2" "r = (case r1 of Inl e \<Rightarrow> Inl e | Inr _ \<Rightarrow> Inr ?c)"
    by (auto simp: createNewChat_def Let_def split: sum.splits)
  with so show ?thesis by auto
qed

lemma addMessage_found:
  assumes "findIndex (\<lambda>c. cid c = chatId) (chats m) = Some i"
      and "addMessage stack stringify sent now chatId role content m st = (r, m', st')"
  shows "\<exists>c. chats m' = sort_desc ((chats m)[i := c]) \<and> activeChat m' = activeChat m \<and>
             (r = Inr (Some c) \<or> r = Inl RangeError) \<and>
             cid c = chatId \<and> timestamp c = now \<and> settings c = settings (chats m ! i) \<and>
             messages c = messages (chats m ! i) @
                [\<lparr>msg_role = role, msg_content = content, msg_timestamp = sent\<rparr>] \<and>
             title c = (if title (chats m ! i) = js ''New Chat'' \<and> role = js ''user'' \<and>
                           messages (chats m ! i) = []
                        then generateTitle content else title (chats m ! i))"
proof -
  let ?chat0 = "chats m ! i"
  let ?chat1 = "?chat0\<lparr>messages := messages ?chat0 @
                          [\<lparr>msg_role = role, msg_content = content, msg_timestamp = sent\<rparr>]\<rparr>"
  let ?chat2 = "if title ?chat1 = js ''New Chat'' \<and> role = js ''user'' \<and> length (messages ?chat1) = 1
                then ?chat1\<lparr>title := generateTitle content\<rparr> else ?chat1"
  let ?chat3 = "?chat2\<lparr>timestamp := now\<rparr>"
  let ?m1 = "m\<lparr>chats := (chats m)[i := ?chat3]\<rparr>"
  obtain r1 m2 st2 where sv: "save stack stringify ?m1 st = (r1, m2, st2)"
    by (metis prod_cases3)
  note so = save_outcome [OF sv]
  from assms sv have res: "m' = m2" "r = (case r1 of Inl e \<Rightarrow> Inl e | Inr _ \<Rightarrow> Inr (Some ?chat3))"
    by (auto simp: addMessage_def Let_def split: sum.splits)
  from findIndex_Some [OF assms(1)] have id: "cid ?chat0 = chatId" by simp
  show ?thesis
    apply (rule exI [of _ ?chat3])
    using so res id by auto
qed

lemma triple: "x = (fst x, fst (snd x), snd (snd x))"
  by simp

lemma present_first_index:
  assumes "chatId \<in> cid ` set cs"
  shows "\<exists>i. findIndex (\<lambda>c. cid c = chatId) cs = Some i \<and> i < length cs \<and>
             cid (cs ! i) = chatId \<and> (\<forall>j < i. cid (cs ! j) \<noteq> chatId)"
proof -
  from assms obtain i where i: "findIndex (\<lambda>c. cid c = chatId) cs = Some i"
    using findIndex_None_iff [of "\<lambda>c. cid c = chatId" cs] by fastforce
  from findIndex_Some [OF i] i show ?thesis by blast
qed

lemma absent_no_index:
  "chatId \<notin> cid ` set cs \<Longrightarrow> findIndex (\<lambda>c. cid c = chatId) cs = None"
  by (auto simp: findIndex_None_iff)

lemma snd_after_save:
  "snd (case x of (Inl e, m2, st2) \<Rightarrow> (Inl e, m2, st2) | (Inr u, m2, st2) \<Rightarrow> (f u, m2, st2)) = snd x"
  by (cases x; cases "fst x") auto

lemma updateChatTitle_saves:
  assumes "findIndex (\<lambda>c. cid c = chatId) (chats m) = Some i"
  shows "snd (updateChatTitle stack stringify now chatId new_title m st) =
           snd (save stack stringify
                  (m\<lparr>chats := (chats m)[i := (chats m ! i)\<lparr>title := new_title, timestamp := now\<rparr>]\<rparr>) st)"
  using assms by (simp add: updateChatTitle_def Let_def snd_after_save)

lemma deleteChat_saves:
  assumes "findIndex (\<lambda>c. cid c = chatId) (chats m) = Some i"
  shows "snd (deleteChat stack stringify chatId m st) =
           snd (save stack stringify
                  (m\<lparr>chats := splice1 i (chats m),
                     activeChat := (if activeChat m = Some chatId
                                    then (case splice1 i (chats m) of [] \<Rightarrow> None
                                          | c # _ \<Rightarrow> Some (cid c))
                                    else activeChat m)\<rparr>) st)"
  using assms by (simp add: deleteChat_def Let_def snd_after_save)

lemma addMessage_saves:
  assumes "findIndex (\<lambda>c. cid c = chatId) (chats m) = Some i"
  shows "\<exists>c. snd (addMessage stack stringify sent now chatId role content m st) =
               snd (save stack stringify (m\<lparr>chats := (chats m)[i := c]\<rparr>) st) \<and>
             cid c = chatId \<and> timestamp c = now \<and>
             messages c = messages (chats m ! i) @
                [\<lparr>msg_role = role, msg_content = content, msg_timestamp = sent\<rparr>]"
proof -
  let ?chat0 = "chats m ! i"
  let ?chat1 = "?chat0\<lparr>messages := messages ?chat0 @
                          [\<lparr>msg_role = role, msg_content = content, msg_timestamp = sent\<rparr>]\<rparr>"
  let ?chat2 = "if title ?chat1 = js ''New Chat'' \<and> role = js ''user'' \<and> length (messages ?chat1) = 1
                then ?chat1\<lparr>title := generateTitle content\<rparr> else ?chat1"
  let ?chat3 = "?chat2\<lparr>timestamp := now\<rparr>"
  have s: "snd (addMessage stack stringify sent now chatId role content m st) =
             snd (save stack stringify (m\<lparr>chats := (chats m)[i := ?chat3]\<rparr>) st)"
    using assms by (simp add: addMessage_def Let_def snd_after_save)
  from findIndex_Some [OF assms] have id: "cid ?chat0 = chatId" by simp
  show ?thesis
    apply (rule exI [of _ ?chat3])
    using s id by simp
qed

lemma createNewChat_saves:
  "\<exists>c. snd (createNewChat stack stringify new_id now s m st) =
          snd (save stack stringify (m\<lparr>chats := c # chats m, activeChat := Some new_id\<rparr>) st) \<and>
        cid c = new_id \<and> timestamp c = now"
  by (rule exI [of _ "\<lparr>cid = new_id, title = js ''New Chat'', timestamp = now, messages = [],
                  settings = \<lparr>temperature = js_or (temperature s) (JSNumber (Finite 1)),
                              topK = js_or (topK s) (JSNumber (Finite 3))\<rparr>\<rparr>"])
     (simp add: createNewChat_def Let_def snd_after_save)

lemma save_chats: "chats (fst (snd (save stack stringify m st))) = sort_desc (chats m)"
  using save_outcome [OF triple] by simp

section \<open>Deleting an unknown id\<close>

text \<open>
  C10. For every repository state and every id that no chat of the collection has,
  \<open>deleteChat\<close> returns \<open>false\<close> and leaves the chats, the active id and the storage
  as they were: nothing is saved on this path.
\<close>

theorem deleteChat_absent:
  "chatId \<notin> cid ` set (chats m) \<Longrightarrow> deleteChat stack stringify chatId m st = (Inr False, m, st)"
proof -
  assume "chatId \<notin> cid ` set (chats m)"
  then have "findIndex (\<lambda>c. cid c = chatId) (chats m) = None"
    by (auto simp: findIndex_None_iff)
  then show ?thesis
    by (simp add: deleteChat_def)
qed

theorem deleteChat_absent_witness:
  "js ''c'' \<notin> cid ` set [demo_chat ''a'' 2, demo_chat ''b'' 1] \<and>
   deleteChat 0 demo_stringify (js ''c'')
      \<lparr>chats = [demo_chat ''a'' 2, demo_chat ''b'' 1], activeChat = Some (js ''a'')\<rparr> (demo_storage 100)
    = (Inr False, \<lparr>chats = [demo_chat ''a'' 2, demo_chat ''b'' 1], activeChat = Some (js ''a'')\<rparr>,
       demo_storage 100)"
proof -
  have h: "js ''c'' \<notin> cid ` set (chats \<lparr>chats = [demo_chat ''a'' 2, demo_chat ''b'' 1],
                                        activeChat = Some (js ''a'')\<rparr>)"
    by (simp add: demo_chat_def js_def)
  from deleteChat_absent [OF h] h show ?thesis by simp
qed

section \<open>Deleting a chat that exists\<close>

text \<open>
  C7. When some chat has the id, \<open>deleteChat\<close> removes exactly one chat, the first with
  that id, and keeps all the others. If the id was the active one, the active id becomes
  the id of the first chat of what remains, or none when nothing remains; \<open>save\<close> then
  sorts the remaining chats, which changes nothing when the collection was in recency
  order, so that the active chat is then also the first of the final collection. If the
  id was not the active one, the active id is unchanged.
\<close>

theorem deleteChat_present:
  assumes "chatId \<in> cid ` set (chats m)"
      and "deleteChat stack stringify chatId m st = (r, m', st')"
  shows "\<exists>i < length (chats m).
           cid (chats m ! i) = chatId \<and> (\<forall>j < i. cid (chats m ! j) \<noteq> chatId) \<and>
           chats m' = sort_desc (splice1 i (chats m)) \<and>
           mset (chats m') = mset (chats m) - {#chats m ! i#} \<and>
           (activeChat m = Some chatId \<longrightarrow>
              activeChat m' = (case splice1 i (chats m) of [] \<Rightarrow> None | c # _ \<Rightarrow> Some (cid c))) \<and>
           (activeChat m = Some chatId \<and> recency_ordered (chats m) \<longrightarrow>
              activeChat m' = (case chats m' of [] \<Rightarrow> None | c # _ \<Rightarrow> Some (cid c))) \<and>
           (activeChat m \<noteq> Some chatId \<longrightarrow> activeChat m' = activeChat m) \<and>
           (r = Inr True \<or> r = Inl RangeError)"
proof -
  from assms(1) obtain i where i: "findIndex (\<lambda>c. cid c = chatId) (chats m) = Some i"
    using findIndex_None_iff [of "\<lambda>c. cid c = chatId" "chats m"] by fastforce
  note fi = findIndex_Some [OF i]
  let ?cs = "splice1 i (chats m)"
  let ?active = "if activeChat m = Some chatId
                 then (case ?cs of [] \<Rightarrow> None | c # _ \<Rightarrow> Some (cid c)) else activeChat m"
  let ?m1 = "m\<lparr>chats := ?cs, activeChat := ?active\<rparr>"
  obtain r1 m2 st2 where s: "save stack stringify ?m1 st = (r1, m2, st2)"
    by (metis prod_cases3)
  note so = save_outcome [OF s]
  from assms(2) i s have res: "m' = m2" "r = (case r1 of Inl e \<Rightarrow> Inl e | Inr _ \<Rightarrow> Inr True)"
    by (auto simp: deleteChat_def Let_def split: sum.splits)
  have c: "chats m' = sort_desc ?cs" and a: "activeChat m' = ?active"
    using so res by simp_all
  have ms: "mset (chats m') = mset (chats m) - {#chats m ! i#}"
    using c fi by (simp add: sort_desc_mset splice1_mset)
  have ord: "recency_ordered (chats m) \<Longrightarrow> chats m' = ?cs"
    using c by (simp add: sort_desc_id splice1_ordered)
  have rr: "r = Inr True \<or> r = Inl RangeError"
    using so res by auto
  from fi c ms a ord rr show ?thesis
    by (intro exI [of _ i]) auto
qed

theorem deleteChat_present_witness:
  "js ''a'' \<in> cid ` set (chats \<lparr>chats = [demo_chat ''a'' 2, demo_chat ''b'' 1],
                                   activeChat = Some (js ''a'')\<rparr>)
   \<and> fst (snd (deleteChat 0 demo_stringify (js ''a'')
        \<lparr>chats = [demo_chat ''a'' 2, demo_chat ''b'' 1], activeChat = Some (js ''a'')\<rparr>
        (demo_storage 1000)))
     = \<lparr>chats = [demo_chat ''b'' 1], activeChat = Some (js ''b'')\<rparr>
   \<and> fst (snd (deleteChat 0 demo_stringify (js ''b'')
        \<lparr>chats = [demo_chat ''b'' 1], activeChat = Some (js ''b'')\<rparr> (demo_storage 1000)))
     = \<lparr>chats = [], activeChat = None\<rparr>
   \<and> fst (snd (deleteChat 0 demo_stringify (js ''b'')
        \<lparr>chats = [demo_chat ''a'' 2, demo_chat ''b'' 1], activeChat = Some (js ''a'')\<rparr>
        (demo_storage 1000)))
     = \<lparr>chats = [demo_chat ''a'' 2], activeChat = Some (js ''a'')\<rparr>"
proof -
  let ?m = "\<lparr>chats = [demo_chat ''a'' 2, demo_chat ''b'' 1], activeChat = Some (js ''a'')\<rparr>"
  have h: "js ''a'' \<in> cid ` set (chats ?m)"
    by (simp add: demo_chat_def)
  have e1: "fst (snd (deleteChat 0 demo_stringify (js ''a'') ?m (demo_storage 1000)))
     = \<lparr>chats = [demo_chat ''b'' 1], activeChat = Some (js ''b'')\<rparr>"
    by code_simp
  have e2: "fst (snd (deleteChat 0 demo_stringify (js ''b'')
        \<lparr>chats = [demo_chat ''b'' 1], activeChat = Some (js ''b'')\<rparr> (demo_storage 1000)))
     = \<lparr>chats = [], activeChat = None\<rparr>"
    by code_simp
  have e3: "fst (snd (deleteChat 0 demo_stringify (js ''b'') ?m (demo_storage 1000)))
     = \<lparr>chats = [demo_chat ''a'' 2], activeChat = Some (js ''a'')\<rparr>"
    by code_simp
  from h e1 e2 e3 deleteChat_present [OF h triple, of 0 demo_stringify "demo_storage 1000"]
  show ?thesis
    by (intro conjI) assumption+
qed

section \<open>Saving reorders the collection in memory\<close>

text \<open>
  C8. \<open>saveChatHistory\<close> leaves the caller's array sorted by descending timestamp, a
  rearrangement of what it was, whether or not the write succeeds. \<open>save\<close> passes the
  manager's own array. Creating a chat ends in \<open>save\<close> on the collection with the new
  chat in front; and when a chat has the id, appending a message, deleting the chat and
  editing its title each end in \<open>save\<close> on the collection as the operation has changed
  it, at the first chat with that id. So after each of them the collection in memory is
  that collection sorted, in recency order. When no chat has the id, the three operations
  leave the manager and the storage as they were. The last conjunct is a case where the
  order changes: a message appended to the second of two chats moves that chat to the
  front.
\<close>

theorem save_sorts_in_place:
  "fst (saveChatHistory stack stringify st cs) = sort_desc cs
   \<and> recency_ordered (sort_desc cs) \<and> mset (sort_desc cs) = mset cs
   \<and> chats (fst (snd (save stack stringify m st))) = sort_desc (chats m)
   \<and> recency_ordered (chats (fst (snd (createNewChat stack stringify new_id now s m st))))
   \<and> (\<exists>c. cid c = new_id \<and> timestamp c = now \<and>
           snd (createNewChat stack stringify new_id now s m st) =
             snd (save stack stringify (m\<lparr>chats := c # chats m, activeChat := Some new_id\<rparr>) st) \<and>
           chats (fst (snd (createNewChat stack stringify new_id now s m st))) =
             sort_desc (c # chats m))
   \<and> (chatId \<in> cid ` set (chats m) \<longrightarrow>
        (\<exists>i c. i < length (chats m) \<and> cid (chats m ! i) = chatId \<and>
           (\<forall>j < i. cid (chats m ! j) \<noteq> chatId) \<and>
           cid c = chatId \<and> timestamp c = now \<and>
           messages c = messages (chats m ! i) @
             [\<lparr>msg_role = role, msg_content = content, msg_timestamp = sent\<rparr>] \<and>
           snd (addMessage stack stringify sent now chatId role content m st) =
             snd (save stack stringify (m\<lparr>chats := (chats m)[i := c]\<rparr>) st) \<and>
           chats (fst (snd (addMessage stack stringify sent now chatId role content m st))) =
             sort_desc ((chats m)[i := c]) \<and>
           recency_ordered
             (chats (fst (snd (addMessage stack stringify sent now chatId role content m st))))))
   \<and> (chatId \<in> cid ` set (chats m) \<longrightarrow>
        (\<exists>i. i < length (chats m) \<and> cid (chats m ! i) = chatId \<and>
           (\<forall>j < i. cid (chats m ! j) \<noteq> chatId) \<and>
           snd (deleteChat stack stringify chatId m st) =
             snd (save stack stringify
                    (m\<lparr>chats := splice1 i (chats m),
                       activeChat := (if activeChat m = Some chatId
                                      then (case splice1 i (chats m) of [] \<Rightarrow> None
                                            | c # _ \<Rightarrow> Some (cid c))
                                      else activeChat m)\<rparr>) st) \<and>
           chats (fst (snd (deleteChat stack stringify chatId m st))) =
             sort_desc (splice1 i (chats m)) \<and>
           recency_ordered (chats (fst (snd (deleteChat stack stringify chatId m st))))))
   \<and> (chatId \<in> cid ` set (chats m) \<longrightarrow>
        (\<exists>i. i < length (chats m) \<and> cid (chats m ! i) = chatId \<and>
           (\<forall>j < i. cid (chats m ! j) \<noteq> chatId) \<and>
           snd (updateChatTitle stack stringify now chatId new_title m st) =
             snd (save stack stringify
                    (m\<lparr>chats := (chats m)[i := (chats m ! i)\<lparr>title := new_title,
                                                               timestamp := now\<rparr>]\<rparr>) st) \<and>
           chats (fst (snd (updateChatTitle stack stringify now chatId new_title m st))) =
             sort_desc ((chats m)[i := (chats m ! i)\<lparr>title := new_title, timestamp := now\<rparr>]) \<and>
           recency_ordered
             (chats (fst (snd (updateChatTitle stack stringify now chatId new_title m st))))))
   \<and> (chatId \<notin> cid ` set (chats m) \<longrightarrow>
        snd (addMessage stack stringify sent now chatId role content m st) = (m, st) \<and>
        snd (deleteChat stack stringify chatId m st) = (m, st) \<and>
        snd (updateChatTitle stack stringify now chatId new_title m st) = (m, st))
   \<and> chats (fst (snd (addMessage 0 demo_stringify 3 4 (js ''b'') (js ''assistant'') (js ''hi'')
        \<lparr>chats = [demo_chat ''a'' 2, demo_chat ''b'' 1], activeChat = Some (js ''a'')\<rparr>
        (demo_storage 1000))))
      = [(demo_chat ''b'' 4)\<lparr>messages :=
            [\<lparr>msg_role = js ''assistant'', msg_content = js ''hi'', msg_timestamp = 3\<rparr>]\<rparr>,
         demo_chat ''a'' 2]"
proof -
  have 1: "fst (saveChatHistory stack stringify st cs) = sort_desc cs"
    using saveChatHistory_outcome [OF triple] by simp
  have 2: "chats (fst (snd (save stack stringify m st))) = sort_desc (chats m)"
    by (rule save_chats)
  have 3: "recency_ordered (chats (fst (snd (createNewChat stack stringify new_id now s m st))))"
    using createNewChat_outcome [OF triple, of stack stringify new_id now s m st]
    by (auto simp: sort_desc_ordered)
  have 4: "\<exists>c. cid c = new_id \<and> timestamp c = now \<and>
           snd (createNewChat stack stringify new_id now s m st) =
             snd (save stack stringify (m\<lparr>chats := c # chats m, activeChat := Some new_id\<rparr>) st) \<and>
           chats (fst (snd (createNewChat stack stringify new_id now s m st))) =
             sort_desc (c # chats m)"
  proof -
    from createNewChat_saves [of stack stringify new_id now s m st] obtain c where
      c: "snd (createNewChat stack stringify new_id now s m st) =
            snd (save stack stringify (m\<lparr>chats := c # chats m, activeChat := Some new_id\<rparr>) st)"
         "cid c = new_id" "timestamp c = now"
      by blast
    have "chats (fst (snd (createNewChat stack stringify new_id now s m st))) = sort_desc (c # chats m)"
      by (simp add: c(1) save_chats)
    with c show ?thesis by blast
  qed
  have 5: "chatId \<in> cid ` set (chats m) \<longrightarrow>
        (\<exists>i c. i < length (chats m) \<and> cid (chats m ! i) = chatId \<and>
           (\<forall>j < i. cid (chats m ! j) \<noteq> chatId) \<and>
           cid c = chatId \<and> timestamp c = now \<and>
           messages c = messages (chats m ! i) @
             [\<lparr>msg_role = role, msg_content = content, msg_timestamp = sent\<rparr>] \<and>
           snd (addMessage stack stringify sent now chatId role content m st) =
             snd (save stack stringify (m\<lparr>chats := (chats m)[i := c]\<rparr>) st) \<and>
           chats (fst (snd (addMessage stack stringify sent now chatId role content m st))) =
             sort_desc ((chats m)[i := c]) \<and>
           recency_ordered
             (chats (fst (snd (addMessage stack stringify sent now chatId role content m st)))))"
  proof
    assume "chatId \<in> cid ` set (chats m)"
    from present_first_index [OF this] obtain i where
      i: "findIndex (\<lambda>c. cid c = chatId) (chats m) = Some i" "i < length (chats m)"
         "cid (chats m ! i) = chatId" "\<forall>j < i. cid (chats m ! j) \<noteq> chatId"
      by blast
    from addMessage_saves [OF i(1), of stack stringify sent now role content st] obtain c where
      c: "snd (addMessage stack stringify sent now chatId role content m st) =
               snd (save stack stringify (m\<lparr>chats := (chats m)[i := c]\<rparr>) st)"
         "cid c = chatId" "timestamp c = now"
         "messages c = messages (chats m ! i) @
                [\<lparr>msg_role = role, msg_content = content, msg_timestamp = sent\<rparr>]"
      by blast
    have ch: "chats (fst (snd (addMessage stack stringify sent now chatId role content m st))) =
             sort_desc ((chats m)[i := c])"
      by (simp add: c(1) save_chats)
    have "recency_ordered
             (chats (fst (snd (addMessage stack stringify sent now chatId role content m st))))"
      by (simp add: ch sort_desc_ordered)
    with i c ch show "\<exists>i c. i < length (chats m) \<and> cid (chats m ! i) = chatId \<and>
           (\<forall>j < i. cid (chats m ! j) \<noteq> chatId) \<and>
           cid c = chatId \<and> timestamp c = now \<and>
           messages c = messages (chats m ! i) @
             [\<lparr>msg_role = role, msg_content = content, msg_timestamp = sent\<rparr>] \<and>
           snd (addMessage stack stringify sent now chatId role content m st) =
             snd (save stack stringify (m\<lparr>chats := (chats m)[i := c]\<rparr>) st) \<and>
           chats (fst (snd (addMessage stack stringify sent now chatId role content m st))) =
             sort_desc ((chats m)[i := c]) \<and>
           recency_ordered
             (chats (fst (snd (addMessage stack stringify sent now chatId role content m st))))"
      by blast
  qed
  have 6: "chatId \<in> cid ` set (chats m) \<longrightarrow>
        (\<exists>i. i < length (chats m) \<and> cid (chats m ! i) = chatId \<and>
           (\<forall>j < i. cid (chats m ! j) \<noteq> chatId) \<and>
           snd (deleteChat stack stringify chatId m st) =
             snd (save stack stringify
                    (m\<lparr>chats := splice1 i (chats m),
                       activeChat := (if activeChat m = Some chatId
                                      then (case splice1 i (chats m) of [] \<Rightarrow> None
                                            | c # _ \<Rightarrow> Some (cid c))
                                      else activeChat m)\<rparr>) st) \<and>
           chats (fst (snd (deleteChat stack stringify chatId m st))) =
             sort_desc (splice1 i (chats m)) \<and>
           recency_ordered (chats (fst (snd (deleteChat stack stringify chatId m st)))))"
  proof
    assume "chatId \<in> cid ` set (chats m)"
    from present_first_index [OF this] obtain i where
      i: "findIndex (\<lambda>c. cid c = chatId) (chats m) = Some i" "i < length (chats m)"
         "cid (chats m ! i) = chatId" "\<forall>j < i. cid (chats m ! j) \<noteq> chatId"
      by blast
    note sv = deleteChat_saves [OF i(1), of stack stringify st]
    have ch: "chats (fst (snd (deleteChat stack stringify chatId m st))) =
             sort_desc (splice1 i (chats m))"
      by (simp add: sv save_chats)
    have "recency_ordered (chats (fst (snd (deleteChat stack stringify chatId m st))))"
      by (simp add: ch sort_desc_ordered)
    with i sv ch show "\<exists>i. i < length (chats m) \<and> cid (chats m ! i) = chatId \<and>
           (\<forall>j < i. cid (chats m ! j) \<noteq> chatId) \<and>
           snd (deleteChat stack stringify chatId m st) =
             snd (save stack stringify
                    (m\<lparr>chats := splice1 i (chats m),
                       activeChat := (if activeChat m = Some chatId
                                      then (case splice1 i (chats m) of [] \<Rightarrow> None
                                            | c # _ \<Rightarrow> Some (cid c))
                                      else activeChat m)\<rparr>) st) \<and>
           chats (fst (snd (deleteChat stack stringify chatId m st))) =
             sort_desc (splice1 i (chats m)) \<and>
           recency_ordered (chats (fst (snd (deleteChat stack stringify chatId m st))))"
      by blast
  qed
  have 7: "chatId \<in> cid ` set (chats m) \<longrightarrow>
        (\<exists>i. i < length (chats m) \<and> cid (chats m ! i) = chatId \<and>
           (\<forall>j < i. cid (chats m ! j) \<noteq> chatId) \<and>
           snd (updateChatTitle stack stringify now chatId new_title m st) =
             snd (save stack stringify
                    (m\<lparr>chats := (chats m)[i := (chats m ! i)\<lparr>title := new_title,
                                                               timestamp := now\<rparr>]\<rparr>) st) \<and>
           chats (fst (snd (updateChatTitle stack stringify now chatId new_title m st))) =
             sort_desc ((chats m)[i := (chats m ! i)\<lparr>title := new_title, timestamp := now\<rparr>]) \<and>
           recency_ordered
             (chats (fst (snd (updateChatTitle stack stringify now chatId new_title m st)))))"
  proof
    assume "chatId \<in> cid ` set (chats m)"
    from present_first_index [OF this] obtain i where
      i: "findIndex (\<lambda>c. cid c = chatId) (chats m) = Some i" "i < length (chats m)"
         "cid (chats m ! i) = chatId" "\<forall>j < i. cid (chats m ! j) \<noteq> chatId"
      by blast
    note sv = updateChatTitle_saves [OF i(1), of stack stringify now new_title st]
    have ch: "chats (fst (snd (updateChatTitle stack stringify now chatId new_title m st))) =
             sort_desc ((chats m)[i := (chats m ! i)\<lparr>title := new_title, timestamp := now\<rparr>])"
      by (simp add: sv save_chats)
    have "recency_ordered
             (chats (fst (snd (updateChatTitle stack stringify now chatId new_title m st))))"
      by (simp add: ch sort_desc_ordered)
    with i sv ch show "\<exists>i. i < length (chats m) \<and> cid (chats m ! i) = chatId \<and>
           (\<forall>j < i. cid (chats m ! j) \<noteq> chatId) \<and>
           snd (updateChatTitle stack stringify now chatId new_title m st) =
             snd (save stack stringify
                    (m\<lparr>chats := (chats m)[i := (chats m ! i)\<lparr>title := new_title,
                                                               timestamp := now\<rparr>]\<rparr>) st) \<and>
           chats (fst (snd (updateChatTitle stack stringify now chatId new_title m st))) =
             sort_desc ((chats m)[i := (chats m ! i)\<lparr>title := new_title, timestamp := now\<rparr>]) \<and>
           recency_ordered
             (chats (fst (snd (updateChatTitle stack stringify now chatId new_title m st))))"
      by blast
  qed
  have 8: "chatId \<notin> cid ` set (chats m) \<longrightarrow>
        snd (addMessage stack stringify sent now chatId role content m st) = (m, st) \<and>
        snd (deleteChat stack stringify chatId m st) = (m, st) \<and>
        snd (updateChatTitle stack stringify now chatId new_title m st) = (m, st)"
  proof
    assume "chatId \<notin> cid ` set (chats m)"
    from absent_no_index [OF this]
    show "snd (addMessage stack stringify sent now chatId role content m st) = (m, st) \<and>
        snd (deleteChat stack stringify chatId m st) = (m, st) \<and>
        snd (updateChatTitle stack stringify now chatId new_title m st) = (m, st)"
      by (simp add: addMessage_def deleteChat_def updateChatTitle_def)
  qed
  have 9: "chats (fst (snd (addMessage 0 demo_stringify 3 4 (js ''b'') (js ''assistant'') (js ''hi'')
        \<lparr>chats = [demo_chat ''a'' 2, demo_chat ''b'' 1], activeChat = Some (js ''a'')\<rparr>
        (demo_storage 1000))))
      = [(demo_chat ''b'' 4)\<lparr>messages :=
            [\<lparr>msg_role = js ''assistant'', msg_content = js ''hi'', msg_timestamp = 3\<rparr>]\<rparr>,
         demo_chat ''a'' 2]"
    by code_simp
  from 1 2 3 4 5 6 7 8 9 show ?thesis
    by (simp only: sort_desc_ordered sort_desc_mset simp_thms)
qed

theorem save_sorts_in_place_witness:
  "js ''b'' \<in> cid ` set (chats \<lparr>chats = [demo_chat ''a'' 2, demo_chat ''b'' 1],
                                   activeChat = Some (js ''a'')\<rparr>)
   \<and> js ''c'' \<notin> cid ` set (chats \<lparr>chats = [demo_chat ''a'' 2, demo_chat ''b'' 1],
                                     activeChat = Some (js ''a'')\<rparr>)
   \<and> snd (updateChatTitle 0 demo_stringify 5 (js ''b'') (js ''B'')
        \<lparr>chats = [demo_chat ''a'' 2, demo_chat ''b'' 1], activeChat = Some (js ''a'')\<rparr>
        (demo_storage 1000))
      = (\<lparr>chats = [(demo_chat ''b'' 5)\<lparr>title := js ''B''\<rparr>, demo_chat ''a'' 2],
          activeChat = Some (js ''a'')\<rparr>,
         \<lparr>items = [(CHAT_HISTORY, js ''b;a;''), (ACTIVE_CHAT, js ''a'')], capacity = 1000,
          accessible = True\<rparr>)
   \<and> snd (deleteChat 0 demo_stringify (js ''b'')
        \<lparr>chats = [demo_chat ''a'' 2, demo_chat ''b'' 1], activeChat = Some (js ''a'')\<rparr>
        (demo_storage 1000))
      = (\<lparr>chats = [demo_chat ''a'' 2], activeChat = Some (js ''a'')\<rparr>,
         \<lparr>items = [(CHAT_HISTORY, js ''a;''), (ACTIVE_CHAT, js ''a'')], capacity = 1000,
          accessible = True\<rparr>)
   \<and> snd (updateChatTitle 0 demo_stringify 5 (js ''c'') (js ''B'')
        \<lparr>chats = [demo_chat ''a'' 2, demo_chat ''b'' 1], activeChat = Some (js ''a'')\<rparr>
        (demo_storage 1000))
      = (\<lparr>chats = [demo_chat ''a'' 2, demo_chat ''b'' 1], activeChat = Some (js ''a'')\<rparr>,
         demo_storage 1000)"
proof -
  let ?m = "\<lparr>chats = [demo_chat ''a'' 2, demo_chat ''b'' 1], activeChat = Some (js ''a'')\<rparr>"
  have p: "js ''b'' \<in> cid ` set (chats ?m)"
    by (simp add: demo_chat_def)
  have a: "js ''c'' \<notin> cid ` set (chats ?m)"
    by (simp add: demo_chat_def js_def)
  have e1: "snd (updateChatTitle 0 demo_stringify 5 (js ''b'') (js ''B'') ?m (demo_storage 1000))
      = (\<lparr>chats = [(demo_chat ''b'' 5)\<lparr>title := js ''B''\<rparr>, demo_chat ''a'' 2],
          activeChat = Some (js ''a'')\<rparr>,
         \<lparr>items = [(CHAT_HISTORY, js ''b;a;''), (ACTIVE_CHAT, js ''a'')], capacity = 1000,
          accessible = True\<rparr>)"
    by code_simp
  have e2: "snd (deleteChat 0 demo_stringify (js ''b'') ?m (demo_storage 1000))
      = (\<lparr>chats = [demo_chat ''a'' 2], activeChat = Some (js ''a'')\<rparr>,
         \<lparr>items = [(CHAT_HISTORY, js ''a;''), (ACTIVE_CHAT, js ''a'')], capacity = 1000,
          accessible = True\<rparr>)"
    by code_simp
  from save_sorts_in_place [of 0 demo_stringify "demo_storage 1000" "[]" ?m "js ''n''" 5
         "\<lparr>temperature = JSUndefined, topK = JSUndefined\<rparr>" "js ''c''" "js ''user''" "js ''x''" 5
         "js ''B''"] a
  have e3: "snd (updateChatTitle 0 demo_stringify 5 (js ''c'') (js ''B'') ?m (demo_storage 1000))
      = (?m, demo_storage 1000)"
    by blast
  from p a e1 e2 e3 show ?thesis
    by (intro conjI) assumption+
qed

section \<open>The capacity of the persisted collection\<close>



section \<open>Loading never throws\<close>

text \<open>
  C6. \<open>loadChatHistory\<close> and \<open>loadUIState\<close> always return a value, whatever the storage
  holds and whatever \<open>JSON.parse\<close> does with it. When the storage can be read, holds a
  non-empty text under the key and that text parses, the parsed value is returned;
  otherwise \<open>loadChatHistory\<close> returns the empty list and \<open>loadUIState\<close> the fixed
  default object (left sidebar open, right sidebar collapsed).
\<close>

theorem load_never_throws:
  "(\<exists>v. loadChatHistory parse st = Inr v)
   \<and> (\<forall>d v. getItem st CHAT_HISTORY = Inr (Some d) \<and> d \<noteq> [] \<and> parse d = Inr v \<longrightarrow>
          loadChatHistory parse st = Inr v)
   \<and> ((\<forall>d v. \<not> (getItem st CHAT_HISTORY = Inr (Some d) \<and> d \<noteq> [] \<and> parse d = Inr v)) \<longrightarrow>
          loadChatHistory parse st = Inr (JArr []))
   \<and> (\<exists>v. loadUIState parse st = Inr v)
   \<and> (\<forall>d v. getItem st UI_STATE = Inr (Some d) \<and> d \<noteq> [] \<and> parse d = Inr v \<longrightarrow>
          loadUIState parse st = Inr v)
   \<and> ((\<forall>d v. \<not> (getItem st UI_STATE = Inr (Some d) \<and> d \<noteq> [] \<and> parse d = Inr v)) \<longrightarrow>
          loadUIState parse st =
            Inr (JObj [(js ''leftSidebarCollapsed'', JBool False),
                       (js ''rightSidebarCollapsed'', JBool True)]))"
proof -
  have history: "loadChatHistory parse st =
      Inr (case getItem st CHAT_HISTORY of
             Inr (Some d) \<Rightarrow> (if d = [] then JArr []
                              else case parse d of Inr v \<Rightarrow> v | Inl e \<Rightarrow> JArr [])
           | _ \<Rightarrow> JArr [])"
    by (simp add: loadChatHistory_def loadChatHistory_try_def truthy_item_def
             split: sum.splits option.splits)
  have ui: "loadUIState parse st =
      Inr (case getItem st UI_STATE of
             Inr (Some d) \<Rightarrow> (if d = [] then default_ui_state
                              else case parse d of Inr v \<Rightarrow> v | Inl e \<Rightarrow> default_ui_state)
           | _ \<Rightarrow> default_ui_state)"
    by (simp add: loadUIState_def loadUIState_try_def truthy_item_def
             split: sum.splits option.splits)
  have 1: "\<exists>v. loadChatHistory parse st = Inr v" using history by blast
  have 2: "\<forall>d v. getItem st CHAT_HISTORY = Inr (Some d) \<and> d \<noteq> [] \<and> parse d = Inr v \<longrightarrow>
          loadChatHistory parse st = Inr v"
    using history by simp
  have 3: "(\<forall>d v. \<not> (getItem st CHAT_HISTORY = Inr (Some d) \<and> d \<noteq> [] \<and> parse d = Inr v)) \<longrightarrow>
          loadChatHistory parse st = Inr (JArr [])"
    unfolding history by (auto split: sum.splits option.splits)
  have 4: "\<exists>v. loadUIState parse st = Inr v" using ui by blast
  have 5: "\<forall>d v. getItem st UI_STATE = Inr (Some d) \<and> d \<noteq> [] \<and> parse d = Inr v \<longrightarrow>
          loadUIState parse st = Inr v"
    using ui by simp
  have 6: "(\<forall>d v. \<not> (getItem st UI_STATE = Inr (Some d) \<and> d \<noteq> [] \<and> parse d = Inr v)) \<longrightarrow>
          loadUIState parse st = Inr default_ui_state"
    unfolding ui by (auto split: sum.splits option.splits)
  from 1 2 3 4 5 6 show ?thesis
    unfolding default_ui_state_def by blast
qed

theorem load_never_throws_witness:
  "loadChatHistory demo_parse
      \<lparr>items = [(CHAT_HISTORY, js ''[1]''), (UI_STATE, js ''{left'')], capacity = 100,
       accessible = True\<rparr> = Inr (JArr [JNum (Finite 1)])
   \<and> loadUIState demo_parse
      \<lparr>items = [(CHAT_HISTORY, js ''[1]''), (UI_STATE, js ''{left'')], capacity = 100,
       accessible = True\<rparr>
     = Inr (JObj [(js ''leftSidebarCollapsed'', JBool False),
                  (js ''rightSidebarCollapsed'', JBool True)])
   \<and> loadChatHistory demo_parse \<lparr>items = [], capacity = 100, accessible = False\<rparr> = Inr (JArr [])"
proof -
  let ?st = "\<lparr>items = [(CHAT_HISTORY, js ''[1]''), (UI_STATE, js ''{left'')], capacity = 100,
       accessible = True\<rparr>"
  let ?no = "\<lparr>items = [], capacity = 100, accessible = False\<rparr>"
  have g1: "getItem ?st CHAT_HISTORY = Inr (Some (js ''[1]''))"
    by (simp add: getItem_def)
  have p1: "js ''[1]'' \<noteq> [] \<and> demo_parse (js ''[1]'') = Inr (JArr [JNum (Finite 1)])"
    by (simp add: demo_parse_def js_def)
  have g2: "\<forall>d v. \<not> (getItem ?st UI_STATE = Inr (Some d) \<and> d \<noteq> [] \<and> demo_parse d = Inr v)"
    by (simp add: getItem_def UI_STATE_def CHAT_HISTORY_def js_def demo_parse_def)
  have g3: "\<forall>d v. \<not> (getItem ?no CHAT_HISTORY = Inr (Some d) \<and> d \<noteq> [] \<and> demo_parse d = Inr v)"
    by (simp add: getItem_def)
  from load_never_throws [of demo_parse ?st] g1 p1 g2
  have a: "loadChatHistory demo_parse ?st = Inr (JArr [JNum (Finite 1)])"
    and b: "loadUIState demo_parse ?st = Inr (JObj [(js ''leftSidebarCollapsed'', JBool False),
                  (js ''rightSidebarCollapsed'', JBool True)])"
    by blast+
  from load_never_throws [of demo_parse ?no] g3
  have c: "loadChatHistory demo_parse ?no = Inr (JArr [])"
    by blast
  from a b c show ?thesis by blast
qed

section \<open>The defaults of a new chat\<close>

text \<open>
  C9, as amended. The chat that \<open>createNewChat\<close> makes is in the collection afterwards
  and is the value returned. A temperature of \<open>0\<close> is replaced by \<open>1.0\<close> and a topK of \<open>0\<close>
  by \<open>3\<close>; every truthy value, and so every non-zero finite number, is stored unchanged;
  every falsy value, \<open>NaN\<close> among them, is replaced by the default.
\<close>

theorem createNewChat_settings:
  assumes "createNewChat stack stringify new_id now s m st = (r, m', st')"
  shows "\<exists>c. c \<in> set (chats m') \<and> (r = Inr c \<or> r = Inl RangeError) \<and> cid c = new_id \<and>
     (temperature s = JSNumber (Finite 0) \<longrightarrow> temperature (settings c) = JSNumber (Finite 1)) \<and>
     (topK s = JSNumber (Finite 0) \<longrightarrow> topK (settings c) = JSNumber (Finite 3)) \<and>
     (truthy (temperature s) \<longrightarrow> temperature (settings c) = temperature s) \<and>
     (truthy (topK s) \<longrightarrow> topK (settings c) = topK s) \<and>
     (\<forall>x. x \<noteq> 0 \<and> temperature s = JSNumber (Finite x) \<longrightarrow>
           temperature (settings c) = JSNumber (Finite x)) \<and>
     (\<forall>x. x \<noteq> 0 \<and> topK s = JSNumber (Finite x) \<longrightarrow> topK (settings c) = JSNumber (Finite x)) \<and>
     (\<not> truthy (temperature s) \<longrightarrow> temperature (settings c) = JSNumber (Finite 1)) \<and>
     (\<not> truthy (topK s) \<longrightarrow> topK (settings c) = JSNumber (Finite 3)) \<and>
     (temperature s = JSNumber NaN \<longrightarrow> temperature (settings c) = JSNumber (Finite 1)) \<and>
     (topK s = JSNumber NaN \<longrightarrow> topK (settings c) = JSNumber (Finite 3))"
proof -
  from createNewChat_outcome [OF assms] obtain c where
    c: "chats m' = sort_desc (c # chats m)" "r = Inr c \<or> r = Inl RangeError"
       "c = \<lparr>cid = new_id, title = js ''New Chat'', timestamp = now, messages = [],
                  settings = \<lparr>temperature = js_or (temperature s) (JSNumber (Finite 1)),
                              topK = js_or (topK s) (JSNumber (Finite 3))\<rparr>\<rparr>"
    by blast
  have mem: "c \<in> set (chats m')" using c(1) by (simp add: sort_desc_set)
  have t: "temperature (settings c) = js_or (temperature s) (JSNumber (Finite 1))"
    and k: "topK (settings c) = js_or (topK s) (JSNumber (Finite 3))"
    and i: "cid c = new_id"
    using c(3) by simp_all
  show ?thesis
    apply (rule exI [of _ c])
    using mem c(2) i by (auto simp: t k js_or_def)
qed

theorem createNewChat_settings_witness:
  "fst (createNewChat 0 demo_stringify (js ''c'') 7
          \<lparr>temperature = JSNumber (Finite 0), topK = JSNumber (Finite 40)\<rparr>
          \<lparr>chats = [], activeChat = None\<rparr> (demo_storage 1000))
     = Inr \<lparr>cid = js ''c'', title = js ''New Chat'', timestamp = 7, messages = [],
            settings = \<lparr>temperature = JSNumber (Finite 1), topK = JSNumber (Finite 40)\<rparr>\<rparr>"
proof -
  have e: "fst (createNewChat 0 demo_stringify (js ''c'') 7
          \<lparr>temperature = JSNumber (Finite 0), topK = JSNumber (Finite 40)\<rparr>
          \<lparr>chats = [], activeChat = None\<rparr> (demo_storage 1000))
     = Inr \<lparr>cid = js ''c'', title = js ''New Chat'', timestamp = 7, messages = [],
            settings = \<lparr>temperature = JSNumber (Finite 1), topK = JSNumber (Finite 40)\<rparr>\<rparr>"
    by (simp add: createNewChat_def save_def saveChatHistory.simps sort_desc_def setItem_def
          demo_storage_def usage_def Let_def js_or_def saveActiveChat_def truthy_item_def
          demo_stringify_def js_def MAX_CHATS_def CHAT_HISTORY_def ACTIVE_CHAT_def)
  from e createNewChat_settings [OF triple, of 0 demo_stringify "js ''c''" 7
          "\<lparr>temperature = JSNumber (Finite 0), topK = JSNumber (Finite 40)\<rparr>"
          "\<lparr>chats = [], activeChat = None\<rparr>" "demo_storage 1000"]
  show ?thesis by (elim exE conjE) assumption
qed

text \<open>
  The claim as stated fails at \<open>NaN\<close>: it is a provided value other than zero, and the
  chat is created with the default temperature \<open>1.0\<close> in its place.
\<close>

theorem createNewChat_NaN_counterexample:
  "JSNumber NaN \<noteq> JSNumber (Finite 0)
   \<and> fst (createNewChat 0 demo_stringify (js ''c'') 7
          \<lparr>temperature = JSNumber NaN, topK = JSUndefined\<rparr>
          \<lparr>chats = [], activeChat = None\<rparr> (demo_storage 1000))
     = Inr \<lparr>cid = js ''c'', title = js ''New Chat'', timestamp = 7, messages = [],
            settings = \<lparr>temperature = JSNumber (Finite 1), topK = JSNumber (Finite 3)\<rparr>\<rparr>"
    by (simp add: createNewChat_def save_def saveChatHistory.simps sort_desc_def setItem_def
          demo_storage_def usage_def Let_def js_or_def saveActiveChat_def truthy_item_def
          demo_stringify_def js_def MAX_CHATS_def CHAT_HISTORY_def ACTIVE_CHAT_def)

section \<open>Facts about the title derivation\<close>

lemma terminated_at_Suc: "terminated_at (c # t) (Suc i) = terminated_at t i"
  by (simp add: terminated_at_def)

lemma terminated_at_0: "terminated_at (c # d # cs) 0 \<longleftrightarrow> is_terminator c \<and> is_space d"
  by (simp add: terminated_at_def)

lemma filter_upt_Cons:
  "filter (terminated_at (c # t)) [0..<length (c # t)] =
     (if terminated_at (c # t) 0 then [0] else []) @ map Suc (filter (terminated_at t) [0..<length t])"
proof -
  have "[0..<length (c # t)] = 0 # map Suc [0..<length t]"
    by (simp add: upt_conv_Cons map_Suc_upt del: upt_Suc)
  then show ?thesis
    by (simp add: filter_map comp_def terminated_at_Suc del: upt_Suc)
qed

lemma search_sentence_end_spec:
  "search_sentence_end t =
     (case filter (terminated_at t) [0..<length t] of [] \<Rightarrow> None | i # _ \<Rightarrow> Some i)"
proof (induction t rule: search_sentence_end.induct)
  case (1 c d cs)
  show ?case
  proof (cases "is_terminator c \<and> is_space d")
    case True
    then show ?thesis
      by (subst filter_upt_Cons) (simp add: terminated_at_0)
  next
    case False
    with 1 show ?thesis
      by (subst filter_upt_Cons) (auto simp: terminated_at_0 split: list.splits)
  qed
qed (simp_all add: terminated_at_def)

lemma generateTitle_spec: "generateTitle content = derive_title_spec (trim content)"
proof -
  have cut: "\<And>t. (case search_sentence_end t of Some i \<Rightarrow> take (i + 1) t | None \<Rightarrow> t) =
     (case filter (terminated_at t) [0..<length t] of [] \<Rightarrow> t | i # _ \<Rightarrow> take (Suc i) t)"
    by (simp add: search_sentence_end_spec split: list.splits)
  show ?thesis
    by (simp only: generateTitle_def derive_title_spec_def cut Let_def)
qed

lemma generateTitle_length: "length (generateTitle content) \<le> 50"
  by (simp add: generateTitle_def Let_def js_def split: option.splits)

section \<open>The derived title\<close>

text \<open>
  C4, as amended. \<open>generateTitle\<close> first trims the text, and then derives the title as
  the specification says, from the trimmed text: cut after the first sentence terminator
  followed by whitespace, if any; at most 50 characters, the first 47 and an ellipsis when
  longer; the sentinel when nothing is left. \<open>addMessage\<close> gives this title to a chat that
  still has the sentinel title and has no message yet, when the message appended is a
  user message. \<open>Hello. How are you?\<close> gives \<open>Hello.\<close>; a text of 80 characters with no
  whitespace at either end and no terminated sentence gives its first 47 characters and
  the ellipsis; the empty text leaves \<open>New Chat\<close>.
\<close>

theorem title_derivation:
  "generateTitle content = derive_title_spec (trim content)
   \<and> length (generateTitle content) \<le> 50
   \<and> (findIndex (\<lambda>c. cid c = chatId) (chats m) = Some i \<and>
        title (chats m ! i) = js ''New Chat'' \<and> messages (chats m ! i) = [] \<longrightarrow>
        (\<exists>c. c \<in> set (chats (fst (snd (addMessage stack stringify sent now chatId (js ''user'') content m st))))
            \<and> (fst (addMessage stack stringify sent now chatId (js ''user'') content m st) = Inr (Some c)
               \<or> fst (addMessage stack stringify sent now chatId (js ''user'') content m st) = Inl RangeError)
            \<and> title c = derive_title_spec (trim content)))
   \<and> generateTitle (js ''Hello. How are you?'') = js ''Hello.''
   \<and> (length content = 80 \<and> trim content = content \<and> (\<forall>k. \<not> terminated_at content k) \<longrightarrow>
        generateTitle content = take 47 content @ js ''...'')
   \<and> generateTitle (js '''') = js ''New Chat''"
proof -
  have 1: "generateTitle content = derive_title_spec (trim content)"
    by (rule generateTitle_spec)
  have 2: "length (generateTitle content) \<le> 50"
    by (rule generateTitle_length)
  have 3: "findIndex (\<lambda>c. cid c = chatId) (chats m) = Some i \<and>
        title (chats m ! i) = js ''New Chat'' \<and> messages (chats m ! i) = [] \<longrightarrow>
        (\<exists>c. c \<in> set (chats (fst (snd (addMessage stack stringify sent now chatId (js ''user'') content m st))))
            \<and> (fst (addMessage stack stringify sent now chatId (js ''user'') content m st) = Inr (Some c)
               \<or> fst (addMessage stack stringify sent now chatId (js ''user'') content m st) = Inl RangeError)
            \<and> title c = derive_title_spec (trim content))"
  proof
    assume a: "findIndex (\<lambda>c. cid c = chatId) (chats m) = Some i \<and>
        title (chats m ! i) = js ''New Chat'' \<and> messages (chats m ! i) = []"
    then have f: "findIndex (\<lambda>c. cid c = chatId) (chats m) = Some i" by simp
    from findIndex_Some [OF f] have len: "i < length (chats m)" by simp
    from addMessage_found [OF f triple, of stack stringify sent now "js ''user''" content st]
    obtain c where c:
      "chats (fst (snd (addMessage stack stringify sent now chatId (js ''user'') content m st)))
         = sort_desc ((chats m)[i := c])"
      "fst (addMessage stack stringify sent now chatId (js ''user'') content m st) = Inr (Some c)
         \<or> fst (addMessage stack stringify sent now chatId (js ''user'') content m st) = Inl RangeError"
      "title c = (if title (chats m ! i) = js ''New Chat'' \<and> js ''user'' = js ''user'' \<and>
                           messages (chats m ! i) = []
                        then generateTitle content else title (chats m ! i))"
      by auto
    have "c \<in> set ((chats m)[i := c])"
      using len by (simp add: set_update_memI)
    then have mem: "c \<in> set (chats (fst (snd (addMessage stack stringify sent now chatId (js ''user'') content m st))))"
      by (simp add: c(1) sort_desc_set)
    from a c(3) have "title c = derive_title_spec (trim content)"
      by (simp add: generateTitle_spec)
    with mem c(2) show "\<exists>c. c \<in> set (chats (fst (snd (addMessage stack stringify sent now chatId (js ''user'') content m st))))
            \<and> (fst (addMessage stack stringify sent now chatId (js ''user'') content m st) = Inr (Some c)
               \<or> fst (addMessage stack stringify sent now chatId (js ''user'') content m st) = Inl RangeError)
            \<and> title c = derive_title_spec (trim content)"
      by blast
  qed
  have 4: "generateTitle (js ''Hello. How are you?'') = js ''Hello.''"
    by code_simp
  have 5: "length content = 80 \<and> trim content = content \<and> (\<forall>k. \<not> terminated_at content k) \<longrightarrow>
        generateTitle content = take 47 content @ js ''...''"
  proof
    assume a: "length content = 80 \<and> trim content = content \<and> (\<forall>k. \<not> terminated_at content k)"
    then have "filter (terminated_at content) [0..<length content] = []"
      by (simp add: filter_empty_conv)
    with a show "generateTitle content = take 47 content @ js ''...''"
      by (auto simp: generateTitle_spec derive_title_spec_def js_def)
  qed
  have 6: "generateTitle (js '''') = js ''New Chat''"
    by code_simp
  from 1 2 3 4 5 6 show ?thesis by blast
qed

theorem title_derivation_witness:
  "fst (addMessage 0 demo_stringify 3 4 (js ''a'') (js ''user'') (js ''Hello. How are you?'')
          \<lparr>chats = [demo_chat ''a'' 2], activeChat = Some (js ''a'')\<rparr> (demo_storage 1000))
     = Inr (Some ((demo_chat ''a'' 4)\<lparr>title := js ''Hello.'', messages :=
          [\<lparr>msg_role = js ''user'', msg_content = js ''Hello. How are you?'', msg_timestamp = 3\<rparr>]\<rparr>))
   \<and> generateTitle (replicate 80 0x61) = replicate 47 0x61 @ js ''...''"
proof -
  have e: "fst (addMessage 0 demo_stringify 3 4 (js ''a'') (js ''user'') (js ''Hello. How are you?'')
          \<lparr>chats = [demo_chat ''a'' 2], activeChat = Some (js ''a'')\<rparr> (demo_storage 1000))
     = Inr (Some ((demo_chat ''a'' 4)\<lparr>title := js ''Hello.'', messages :=
          [\<lparr>msg_role = js ''user'', msg_content = js ''Hello. How are you?'', msg_timestamp = 3\<rparr>]\<rparr>))"
    by code_simp
  have h: "length (replicate 80 (0x61 :: jschar)) = 80 \<and>
           trim (replicate 80 0x61) = replicate 80 0x61 \<and>
           (\<forall>k. \<not> terminated_at (replicate 80 0x61) k)"
    by (simp add: trim_def terminated_at_def is_terminator_def is_space_def)
  from title_derivation [of "replicate 80 0x61"] h
  have "generateTitle (replicate 80 0x61) = take 47 (replicate 80 0x61) @ js ''...''"
    by blast
  with e show ?thesis by simp
qed

text \<open>
  The claim as stated takes the raw text. A text with a leading blank is a
  counterexample: the title of \<open>" a"\<close> is \<open>"a"\<close>, not the raw text; and 40 blanks followed
  by 40 letters, an 80-character text without a terminator, give the 40 letters and no
  ellipsis. The claim also speaks of the first user message: \<open>addMessage\<close> tests that the
  chat has exactly one message after the append, so a first user message that follows a
  message of the assistant leaves the sentinel title.
\<close>

theorem title_derivation_counterexample:
  "generateTitle (js '' a'') = js ''a''
   \<and> derive_title_spec (js '' a'') = js '' a''
   \<and> generateTitle (js '' a'') \<noteq> derive_title_spec (js '' a'')
   \<and> length (replicate 40 0x20 @ replicate 40 0x61 :: jsstring) = 80
   \<and> filter (terminated_at (replicate 40 0x20 @ replicate 40 0x61)) [0..<80] = []
   \<and> generateTitle (replicate 40 0x20 @ replicate 40 0x61) = replicate 40 0x61
   \<and> generateTitle (replicate 40 0x20 @ replicate 40 0x61)
       \<noteq> take 47 (replicate 40 0x20 @ replicate 40 0x61) @ js ''...''
   \<and> fst (addMessage 0 demo_stringify 3 4 (js ''a'') (js ''user'') (js ''Hello. How are you?'')
          \<lparr>chats = [(demo_chat ''a'' 2)\<lparr>messages :=
              [\<lparr>msg_role = js ''assistant'', msg_content = js ''Hi'', msg_timestamp = 1\<rparr>]\<rparr>],
           activeChat = Some (js ''a'')\<rparr> (demo_storage 1000))
     = Inr (Some ((demo_chat ''a'' 4)\<lparr>title := js ''New Chat'', messages :=
          [\<lparr>msg_role = js ''assistant'', msg_content = js ''Hi'', msg_timestamp = 1\<rparr>,
           \<lparr>msg_role = js ''user'', msg_content = js ''Hello. How are you?'',
            msg_timestamp = 3\<rparr>]\<rparr>))"
  by code_simp

section \<open>Facts about the session\<close>

lemma updateSession_creates:
  assumes "languageModel e" "create_succeeds e"
  shows "\<exists>opts. updateSession e a = (Inr (), snd (updateSession e a)) \<and>
           host_log (snd (updateSession e a)) = host_log a @ [Create opts] \<and>
           session (snd (updateSession e a)) = Some (length (host_log a)) \<and>
           chats (manager (snd (updateSession e a))) = chats (manager a) \<and>
           store (snd (updateSession e a)) = store a"
  using assms
  by (auto simp: updateSession_def getActiveChat_def Let_def split: prod.splits)

lemma updateSession_frame:
  "chats (manager (snd (updateSession e a))) = chats (manager a) \<and>
   store (snd (updateSession e a)) = store a"
  by (auto simp: updateSession_def getActiveChat_def Let_def split: prod.splits)

lemma acquire_session_frame:
  "chats (manager (snd (acquire_session e a))) = chats (manager a) \<and>
   store (snd (acquire_session e a)) = store a"
  by (simp add: acquire_session_def updateSession_frame)

section \<open>Facts about the streamed answer\<close>

lemma for_await_True:
  "for_await True cs result previousChunk = Inr (result @ concat (deltas previousChunk cs))"
  by (induction cs arbitrary: result previousChunk) (simp_all add: Let_def)

lemma for_await_False:
  "for_await False cs result previousChunk = (if cs = [] then Inr result else Inl ReferenceError)"
  by (cases cs) (simp_all add: Let_def)

lemma read_stream_Inr_iff:
  "read_stream p s = Inr result \<longleftrightarrow>
     failure s = None \<and> (p \<or> chunks s = []) \<and> result = concat (deltas [] (chunks s))"
  by (cases p) (auto simp: read_stream_def for_await_True for_await_False split: option.splits)

lemma pair: "x = (fst x, snd x)"
  by simp


text \<open>
  A stream that fails leaves the chats and the storage as they were when the \<open>try\<close>
  statement of \<open>promptModel\<close> began: no answer is appended and nothing is saved.
\<close>

lemma respond_failing_stream:
  assumes "session (snd (acquire_session e a)) = Some h"
      and "failure (promptStreaming e h prompt) \<noteq> None"
  shows "chats (manager (snd (respond e rd prompt chatId a))) = chats (manager a) \<and>
         store (snd (respond e rd prompt chatId a)) = store a"
proof -
  obtain r1 a1 where q: "acquire_session e a = (r1, a1)" by (metis prod.exhaust)
  from acquire_session_frame [of e a] q
  have f: "chats (manager a1) = chats (manager a)" "store a1 = store a" by simp_all
  from assms(1) q have s: "session a1 = Some h" by simp
  from assms(2) have "\<And>result. read_stream (p_in_scope e) (promptStreaming e h prompt) \<noteq> Inr result"
    by (simp add: read_stream_Inr_iff)
  then obtain err where re: "read_stream (p_in_scope e) (promptStreaming e h prompt) = Inl err"
    by (cases "read_stream (p_in_scope e) (promptStreaming e h prompt)") auto
  have "snd (respond e rd prompt chatId a) = a1"
    by (cases r1) (simp_all add: respond_def q s re)
  with f show ?thesis by simp
qed

section \<open>Replacing the session\<close>

text \<open>
  Whenever the model is there and \<open>create\<close> succeeds, a call of \<open>updateSession\<close>
  creates one session and makes it the current one; it compares nothing and destroys
  nothing (lemma \<open>updateSession_creates\<close>).

  C1. On the script as it is, two calls of \<open>updateSession\<close> for the same chat and the
  same settings, as the start of the script makes them, create two sessions and destroy
  none: both handles are live and the second is the current session. Moving the topK
  slider to 8 in that state creates a third session with the new topK and destroys none:
  the host has seen three creations and no destruction, and three handles are live. The
  temperature slider does the same.
\<close>

theorem slider_creates_without_destroy:
  "host_log (snd (updateSession (demo_env False hi_stream)
       (snd (updateSession (demo_env False hi_stream) demo_app))))
     = [Create \<lparr>temperature = JSNumber (Finite 1), topK = JSNumber (Finite 3)\<rparr>,
        Create \<lparr>temperature = JSNumber (Finite 1), topK = JSNumber (Finite 3)\<rparr>]
   \<and> live_handles (host_log (snd (updateSession (demo_env False hi_stream)
       (snd (updateSession (demo_env False hi_stream) demo_app))))) = [0, 1]
   \<and> session (snd (updateSession (demo_env False hi_stream)
       (snd (updateSession (demo_env False hi_stream) demo_app)))) = Some 1
   \<and> host_log (snd (sessionTopK_input (demo_env False hi_stream) (Finite 8)
       (snd (updateSession (demo_env False hi_stream)
          (snd (updateSession (demo_env False hi_stream) demo_app))))))
     = [Create \<lparr>temperature = JSNumber (Finite 1), topK = JSNumber (Finite 3)\<rparr>,
        Create \<lparr>temperature = JSNumber (Finite 1), topK = JSNumber (Finite 3)\<rparr>,
        Create \<lparr>temperature = JSNumber (Finite 1), topK = JSNumber (Finite 8)\<rparr>]
   \<and> session (snd (sessionTopK_input (demo_env False hi_stream) (Finite 8)
       (snd (updateSession (demo_env False hi_stream)
          (snd (updateSession (demo_env False hi_stream) demo_app)))))) = Some 2
   \<and> live_handles (host_log (snd (sessionTopK_input (demo_env False hi_stream) (Finite 8)
       (snd (updateSession (demo_env False hi_stream)
          (snd (updateSession (demo_env False hi_stream) demo_app))))))) = [0, 1, 2]
   \<and> host_log (snd (sessionTemperature_input (demo_env False hi_stream) (Finite 2)
       (snd (updateSession (demo_env False hi_stream)
          (snd (updateSession (demo_env False hi_stream) demo_app))))))
     = [Create \<lparr>temperature = JSNumber (Finite 1), topK = JSNumber (Finite 3)\<rparr>,
        Create \<lparr>temperature = JSNumber (Finite 1), topK = JSNumber (Finite 3)\<rparr>,
        Create \<lparr>temperature = JSNumber (Finite 2), topK = JSNumber (Finite 3)\<rparr>]"
  by code_simp

section \<open>A stream that ends and is not recorded\<close>

text \<open>
  C5. On the script as it is, where nothing declares \<open>p\<close>, a stream that yields its
  snapshots and ends normally is not recorded: for the stream \<open>Hi\<close>, \<open>Hi there\<close>,
  \<open>Hi there!\<close>, and for the stream of the one snapshot \<open>Hi\<close>, the chats hold no message
  of the assistant after \<open>promptModel\<close>, as before it, and the storage is what it was
  when the message of the user had been saved.
\<close>

theorem ended_stream_not_recorded:
  "failure hi_stream = None
   \<and> assistant_count (chats (manager
        (snd (submit_prompt (demo_env False hi_stream) demo_readings (js ''hello'') demo_app)))) = 0
   \<and> assistant_count (chats (manager
        (snd (promptModel (demo_env False hi_stream) demo_readings (js ''hello'') demo_app)))) = 0
   \<and> store (snd (promptModel (demo_env False hi_stream) demo_readings (js ''hello'') demo_app))
       = store (snd (submit_prompt (demo_env False hi_stream) demo_readings (js ''hello'') demo_app))
   \<and> failure \<lparr>chunks = [js ''Hi''], failure = None\<rparr> = None
   \<and> assistant_count (chats (manager
        (snd (promptModel (demo_env False \<lparr>chunks = [js ''Hi''], failure = None\<rparr>) demo_readings
               (js ''hello'') demo_app)))) = 0"
  by code_simp

section \<open>The deltas of a stream\<close>

text \<open>
  The arithmetic of the loop is the one the specification describes: when \<open>p\<close> is in
  scope and the stream does not fail, the loop ends with the concatenation of the deltas
  (lemma \<open>read_stream_Inr_iff\<close>), and the three snapshots of the example give the deltas
  and the text expected.
\<close>

lemma stream_deltas_example:
  "deltas [] (chunks hi_stream) = [js ''Hi'', js '' there'', js ''!'']
   \<and> read_stream True hi_stream = Inr (js ''Hi there!'')"
  by code_simp

text \<open>
  C2. On the script as it is, where nothing declares \<open>p\<close>, the loop throws a
  ReferenceError while it handles the first snapshot: for the snapshots \<open>Hi\<close>,
  \<open>Hi there\<close>, \<open>Hi there!\<close> the stream is not read to its end, \<open>promptModel\<close> is rejected
  with the ReferenceError thrown again by its \<open>catch\<close> block, and the chat holds the message
  of the user and no answer.
\<close>

theorem streaming_throws_at_first_snapshot:
  "read_stream (p_in_scope (demo_env False hi_stream)) hi_stream = Inl ReferenceError
   \<and> fst (promptModel (demo_env False hi_stream) demo_readings (js ''hello'') demo_app)
       = Inl ReferenceError
   \<and> map messages (chats (manager
        (snd (promptModel (demo_env False hi_stream) demo_readings (js ''hello'') demo_app))))
       = [[\<lparr>msg_role = js ''user'', msg_content = js ''hello'', msg_timestamp = 6\<rparr>]]"
  by code_simp

end
